theory Spec2Isabelle
  imports Complex_Main "HOL-Library.Multiset"
begin

section \<open>Python strings\<close>

text \<open>
  A Python \<open>str\<close> is a sequence of Unicode code points; a code point is a natural
  number, so that \<open>strip\<close> and \<open>split\<close> see the same whitespace characters as
  CPython does.  \<open>u\<close> turns an ASCII literal of the source into such a string.
\<close>

type_synonym pystr = "nat list"

definition u :: "string \<Rightarrow> pystr" where
  "u s = map of_char s"

text \<open>The characters that \<open>str.strip()\<close> and \<open>str.split()\<close> treat as whitespace.\<close>

definition isspace :: "nat \<Rightarrow> bool" where
  "isspace c \<longleftrightarrow>
     (9 \<le> c \<and> c \<le> 13) \<or> (28 \<le> c \<and> c \<le> 32) \<or> c = 133 \<or> c = 160 \<or> c = 5760 \<or>
     (8192 \<le> c \<and> c \<le> 8202) \<or> c = 8232 \<or> c = 8233 \<or> c = 8239 \<or> c = 8287 \<or> c = 12288"

definition str_strip :: "pystr \<Rightarrow> pystr" where
  "str_strip s = rev (dropWhile isspace (rev (dropWhile isspace s)))"

function str_split :: "pystr \<Rightarrow> pystr list" where
  "str_split [] = []"
| "str_split (c # cs) =
     (if isspace c then str_split cs
      else (c # takeWhile (\<lambda>x. \<not> isspace x) cs) # str_split (dropWhile (\<lambda>x. \<not> isspace x) cs))"
  by pat_completeness auto
termination
  by (relation "measure length") (auto simp: less_Suc_eq_le length_dropWhile_le)

definition startswith :: "pystr \<Rightarrow> pystr \<Rightarrow> bool" where
  "startswith s p \<longleftrightarrow> take (length p) s = p"

definition endswith :: "pystr \<Rightarrow> pystr \<Rightarrow> bool" where
  "endswith s p \<longleftrightarrow> length p \<le> length s \<and> drop (length s - length p) s = p"

text \<open>\<open>k in s\<close> for two strings: \<open>k\<close> occurs in \<open>s\<close> as a contiguous block.\<close>

fun is_substring :: "pystr \<Rightarrow> pystr \<Rightarrow> bool" where
  "is_substring k [] = (k = [])"
| "is_substring k (c # cs) = (startswith (c # cs) k \<or> is_substring k cs)"


section \<open>Python floats\<close>

text \<open>
  A \<open>float\<close> is an IEEE 754 binary64 value: a rational, an infinity or a NaN (the sign
  of zero is not kept; it shows only in the printed form).  \<open>to_double\<close> rounds an exact
  result to the nearest binary64 value, ties to even, with 53 significant bits, the
  subnormal spacing \<open>2 ^ -1074\<close> below \<open>2 ^ -1022\<close> and overflow to an infinity from
  \<open>2 ^ 1024\<close> on.
\<close>

datatype pyfloat = Finite rat | PosInf | NegInf | NaN

fun ilog2 :: "nat \<Rightarrow> nat" where
  "ilog2 n = (if n < 2 then 0 else Suc (ilog2 (n div 2)))"

declare ilog2.simps [simp del]

definition pow2 :: "int \<Rightarrow> rat" where
  "pow2 k = (if 0 \<le> k then 2 ^ nat k else 1 / 2 ^ nat (- k))"

definition floor_log2 :: "rat \<Rightarrow> int" where
  "floor_log2 x =
     (let (a, b) = quotient_of x;
          k = int (ilog2 (nat a)) - int (ilog2 (nat b))
      in if pow2 k \<le> x then k else k - 1)"

definition round_half_even :: "rat \<Rightarrow> int" where
  "round_half_even m =
     (let f = \<lfloor>m\<rfloor>; r = m - of_int f
      in if r < 1 / 2 then f else if 1 / 2 < r then f + 1 else if even f then f else f + 1)"

definition double_exp :: "rat \<Rightarrow> int" where
  "double_exp x = max (floor_log2 \<bar>x\<bar> - 52) (- 1074)"

definition round_double :: "rat \<Rightarrow> rat" where
  "round_double x =
     (if x = 0 then 0 else of_int (round_half_even (x / pow2 (double_exp x))) * pow2 (double_exp x))"

definition to_double :: "rat \<Rightarrow> pyfloat" where
  "to_double x =
     (let y = round_double x
      in if 2 ^ 1024 \<le> \<bar>y\<bar> then (if 0 < x then PosInf else NegInf) else Finite y)"

definition fsign :: "pyfloat \<Rightarrow> int" where
  "fsign f = (case f of Finite r \<Rightarrow> (if 0 < r then 1 else if r < 0 then - 1 else 0)
              | PosInf \<Rightarrow> 1 | NegInf \<Rightarrow> - 1 | NaN \<Rightarrow> 0)"

fun fadd :: "pyfloat \<Rightarrow> pyfloat \<Rightarrow> pyfloat" where
  "fadd (Finite a) (Finite b) = to_double (a + b)"
| "fadd NaN _ = NaN"
| "fadd _ NaN = NaN"
| "fadd PosInf NegInf = NaN"
| "fadd NegInf PosInf = NaN"
| "fadd PosInf _ = PosInf"
| "fadd NegInf _ = NegInf"
| "fadd (Finite a) f = f"

fun fneg :: "pyfloat \<Rightarrow> pyfloat" where
  "fneg (Finite a) = Finite (- a)"
| "fneg PosInf = NegInf"
| "fneg NegInf = PosInf"
| "fneg NaN = NaN"

definition fsub :: "pyfloat \<Rightarrow> pyfloat \<Rightarrow> pyfloat" where
  "fsub a b = fadd a (fneg b)"

fun fmul :: "pyfloat \<Rightarrow> pyfloat \<Rightarrow> pyfloat" where
  "fmul (Finite a) (Finite b) = to_double (a * b)"
| "fmul NaN _ = NaN"
| "fmul _ NaN = NaN"
| "fmul a b =
     (let s = fsign a * fsign b in if s = 0 then NaN else if 0 < s then PosInf else NegInf)"

text \<open>Division of a float by a positive finite float (the only divisor the source has).\<close>

fun fdiv_pos :: "pyfloat \<Rightarrow> rat \<Rightarrow> pyfloat" where
  "fdiv_pos (Finite a) b = to_double (a / b)"
| "fdiv_pos f b = f"

text \<open>The float literal \<open>0.95\<close>.\<close>

definition float_0_95 :: pyfloat where
  "float_0_95 = to_double (19 / 20)"


section \<open>Decoded JSON, exceptions, captions\<close>

text \<open>
  What \<open>json.loads\<close> returns: \<open>None\<close>, a \<open>bool\<close>, an unbounded \<open>int\<close>, a
  \<open>float\<close>, a \<open>str\<close>, a \<open>list\<close> or a \<open>dict\<close>.  A dict is the list of its items in
  insertion order (the keys of a decoded dict are distinct); \<open>map_of\<close> looks a key up.
\<close>

datatype json =
    JNull
  | JBool bool
  | JInt int
  | JFloat pyfloat
  | JStr pystr
  | JArr "json list"
  | JObj "(pystr \<times> json) list"

text \<open>
  The exceptions of the pipeline.  The built-in ones carry no message; each
  \<open>FileNotFoundError\<close> and \<open>RuntimeError\<close> that the source raises is a constructor of
  its own, holding the values that its message interpolates.
\<close>

datatype exc =
    TypeError
  | AttributeError
  | ValueError
  | OverflowError
  | KeyError
  | OSError
  | UnicodeEncodeError
  | Model_not_found pystr pystr
  | Whisper_executable_not_found
  | Failed_to_convert_audio pystr
  | Ffmpeg_not_found
  | Whisper_transcription_failed pystr
  | Whisper_output_json_not_found pystr
  | No_captions_extracted pystr "pystr list"
  | Failed_to_parse_whisper_json
  | Error_processing_transcription exc

record caption =
  text_of :: json
  startMs :: json
  endMs :: json
  timestampMs :: json
  confidence :: json

text \<open>A loop that appends to \<open>captions\<close> and is left by the first exception.\<close>

fun for_each :: "('a \<Rightarrow> exc + 'b list) \<Rightarrow> 'a list \<Rightarrow> exc + 'b list" where
  "for_each f [] = Inr []"
| "for_each f (x # xs) =
     (case f x of Inl e \<Rightarrow> Inl e
      | Inr ys \<Rightarrow> (case for_each f xs of Inl e \<Rightarrow> Inl e | Inr zs \<Rightarrow> Inr (ys @ zs)))"

text \<open>\<open>k in x\<close>, \<open>x[k]\<close>, \<open>x.get(k, d)\<close> and \<open>for y in x\<close> for a string key \<open>k\<close>.\<close>

fun py_contains :: "pystr \<Rightarrow> json \<Rightarrow> exc + bool" where
  "py_contains k (JObj kvs) = Inr (map_of kvs k \<noteq> None)"
| "py_contains k (JArr xs) = Inr (JStr k \<in> set xs)"
| "py_contains k (JStr s) = Inr (is_substring k s)"
| "py_contains k _ = Inl TypeError"

fun py_getitem :: "json \<Rightarrow> pystr \<Rightarrow> exc + json" where
  "py_getitem (JObj kvs) k = (case map_of kvs k of None \<Rightarrow> Inl KeyError | Some v \<Rightarrow> Inr v)"
| "py_getitem _ k = Inl TypeError"

fun py_get :: "json \<Rightarrow> pystr \<Rightarrow> json \<Rightarrow> exc + json" where
  "py_get (JObj kvs) k d = Inr (case map_of kvs k of None \<Rightarrow> d | Some v \<Rightarrow> v)"
| "py_get _ k d = Inl AttributeError"

fun py_iter :: "json \<Rightarrow> exc + json list" where
  "py_iter (JArr xs) = Inr xs"
| "py_iter (JObj kvs) = Inr (map (\<lambda>kv. JStr (fst kv)) kvs)"
| "py_iter (JStr s) = Inr (map (\<lambda>c. JStr [c]) s)"
| "py_iter _ = Inl TypeError"


section \<open>Python numbers\<close>

datatype pynum = PInt int | PFloat pyfloat

text \<open>The numeric value of a decoded JSON value (\<open>bool\<close> is a subclass of \<open>int\<close>).\<close>

fun num_of :: "json \<Rightarrow> pynum option" where
  "num_of (JInt n) = Some (PInt n)"
| "num_of (JBool b) = Some (PInt (if b then 1 else 0))"
| "num_of (JFloat f) = Some (PFloat f)"
| "num_of _ = None"

fun json_of_num :: "pynum \<Rightarrow> json" where
  "json_of_num (PInt n) = JInt n"
| "json_of_num (PFloat f) = JFloat f"

text \<open>\<open>float(n)\<close> for an int: correctly rounded, \<open>OverflowError\<close> when too large.\<close>

definition float_of_int :: "int \<Rightarrow> exc + pyfloat" where
  "float_of_int n = (case to_double (of_int n) of Finite r \<Rightarrow> Inr (Finite r) | _ \<Rightarrow> Inl OverflowError)"

fun as_float :: "pynum \<Rightarrow> exc + pyfloat" where
  "as_float (PInt n) = float_of_int n"
| "as_float (PFloat f) = Inr f"

fun num_add :: "pynum \<Rightarrow> pynum \<Rightarrow> exc + pynum" where
  "num_add (PInt a) (PInt b) = Inr (PInt (a + b))"
| "num_add x y =
     (case as_float x of Inl e \<Rightarrow> Inl e
      | Inr a \<Rightarrow> (case as_float y of Inl e \<Rightarrow> Inl e | Inr b \<Rightarrow> Inr (PFloat (fadd a b))))"

fun num_sub :: "pynum \<Rightarrow> pynum \<Rightarrow> exc + pynum" where
  "num_sub (PInt a) (PInt b) = Inr (PInt (a - b))"
| "num_sub x y =
     (case as_float x of Inl e \<Rightarrow> Inl e
      | Inr a \<Rightarrow> (case as_float y of Inl e \<Rightarrow> Inl e | Inr b \<Rightarrow> Inr (PFloat (fsub a b))))"

text \<open>\<open>x - y\<close> on decoded values: a \<open>TypeError\<close> unless both are numbers.\<close>

definition py_sub :: "json \<Rightarrow> json \<Rightarrow> exc + pynum" where
  "py_sub x y =
     (case num_of x of None \<Rightarrow> Inl TypeError
      | Some a \<Rightarrow> (case num_of y of None \<Rightarrow> Inl TypeError | Some b \<Rightarrow> num_sub a b))"

text \<open>
  \<open>x / n\<close> for a positive int \<open>n\<close>: true division.  Of two ints it is the correctly
  rounded quotient and raises \<open>OverflowError\<close> when that is no float; of a float it
  is float division, which overflows to an infinity.
\<close>

fun num_truediv :: "pynum \<Rightarrow> nat \<Rightarrow> exc + pyfloat" where
  "num_truediv (PInt a) n =
     (case to_double (of_int a / of_nat n) of Finite r \<Rightarrow> Inr (Finite r) | _ \<Rightarrow> Inl OverflowError)"
| "num_truediv (PFloat f) n =
     (case float_of_int (int n) of Inl e \<Rightarrow> Inl e
      | Inr g \<Rightarrow> (case g of Finite b \<Rightarrow> Inr (fdiv_pos f b) | _ \<Rightarrow> Inl OverflowError))"

text \<open>\<open>i * x\<close> for an int \<open>i\<close> and a float \<open>x\<close>.\<close>

definition int_times_float :: "int \<Rightarrow> pyfloat \<Rightarrow> exc + pyfloat" where
  "int_times_float i x = (case float_of_int i of Inl e \<Rightarrow> Inl e | Inr a \<Rightarrow> Inr (fmul a x))"

text \<open>\<open>int(x)\<close> for a float: truncation toward zero.\<close>

definition trunc :: "rat \<Rightarrow> int" where
  "trunc r = (if 0 \<le> r then \<lfloor>r\<rfloor> else \<lceil>r\<rceil>)"

fun int_of_float :: "pyfloat \<Rightarrow> exc + int" where
  "int_of_float (Finite r) = Inr (trunc r)"
| "int_of_float NaN = Inl ValueError"
| "int_of_float _ = Inl OverflowError"


section \<open>The output parser: the extraction ladder of \<open>_parse_whisper_output\<close>\<close>

text \<open>
  \<open>int(str)\<close> of the Python runtime (its accepted digits and its length limit depend on
  the interpreter) is a parameter, \<open>int_of_str\<close>: \<open>None\<close> is a \<open>ValueError\<close>.
\<close>

text \<open>\<open>int(v * 1000)\<close>, the word tier's conversion of seconds to milliseconds.\<close>

fun int_times_1000 :: "(pystr \<Rightarrow> int option) \<Rightarrow> json \<Rightarrow> exc + int" where
  "int_times_1000 int_of_str (JInt n) = Inr (n * 1000)"
| "int_times_1000 int_of_str (JBool b) = Inr ((if b then 1 else 0) * 1000)"
| "int_times_1000 int_of_str (JFloat f) = int_of_float (fmul f (Finite 1000))"
| "int_times_1000 int_of_str (JStr s) =
     (case int_of_str (concat (replicate 1000 s)) of None \<Rightarrow> Inl ValueError | Some n \<Rightarrow> Inr n)"
| "int_times_1000 int_of_str _ = Inl TypeError"

text \<open>The test for special tokens of line 245: \<open>[_TT_xxx]\<close>, \<open>[_BEG_]\<close> and the like.\<close>

definition special_token :: "pystr \<Rightarrow> bool" where
  "special_token s \<longleftrightarrow> startswith s (u ''[_'') \<and> endswith s (u '']'')"

text \<open>Token tier, the body of \<open>for token_data in segment['tokens']\<close>.\<close>

definition token_caption :: "json \<Rightarrow> exc + caption list" where
  "token_caption token_data =
     (case py_get token_data (u ''text'') (JStr []) of Inl e \<Rightarrow> Inl e
      | Inr token_text \<Rightarrow>
     (case token_text of
        JStr s \<Rightarrow>
          if special_token s \<or> str_strip s = [] then Inr []
          else
           (case py_get token_data (u ''offsets'') (JObj []) of Inl e \<Rightarrow> Inl e
            | Inr offsets \<Rightarrow>
           (case py_get offsets (u ''from'') (JInt 0) of Inl e \<Rightarrow> Inl e
            | Inr start_ms \<Rightarrow>
           (case py_get offsets (u ''to'') (JInt 0) of Inl e \<Rightarrow> Inl e
            | Inr end_ms \<Rightarrow>
           (case py_get token_data (u ''p'') (JFloat float_0_95) of Inl e \<Rightarrow> Inl e
            | Inr p \<Rightarrow>
              Inr [\<lparr>text_of = token_text, startMs = start_ms, endMs = end_ms,
                    timestampMs = start_ms, confidence = p\<rparr>]))))
      | _ \<Rightarrow> Inl AttributeError))"

text \<open>Word tier, the body of \<open>for word_data in segment['words']\<close>.\<close>

definition word_data_caption :: "(pystr \<Rightarrow> int option) \<Rightarrow> json \<Rightarrow> exc + caption list" where
  "word_data_caption int_of_str word_data =
     (case py_get word_data (u ''text'') (JStr []) of Inl e \<Rightarrow> Inl e
      | Inr text_default \<Rightarrow>
     (case py_get word_data (u ''word'') text_default of Inl e \<Rightarrow> Inl e
      | Inr word_text \<Rightarrow>
     (case py_get word_data (u ''t0'') (JInt 0) of Inl e \<Rightarrow> Inl e
      | Inr t0 \<Rightarrow>
     (case py_get word_data (u ''start'') t0 of Inl e \<Rightarrow> Inl e
      | Inr start \<Rightarrow>
     (case int_times_1000 int_of_str start of Inl e \<Rightarrow> Inl e
      | Inr start_ms \<Rightarrow>
     (case py_get word_data (u ''t1'') (JInt 0) of Inl e \<Rightarrow> Inl e
      | Inr t1 \<Rightarrow>
     (case py_get word_data (u ''end'') t1 of Inl e \<Rightarrow> Inl e
      | Inr end \<Rightarrow>
     (case int_times_1000 int_of_str end of Inl e \<Rightarrow> Inl e
      | Inr end_ms \<Rightarrow>
     (case int_times_1000 int_of_str start of Inl e \<Rightarrow> Inl e
      | Inr timestamp_ms \<Rightarrow>
     (case py_get word_data (u ''p'') (JFloat float_0_95) of Inl e \<Rightarrow> Inl e
      | Inr p_default \<Rightarrow>
     (case py_get word_data (u ''confidence'') p_default of Inl e \<Rightarrow> Inl e
      | Inr conf \<Rightarrow>
        Inr [\<lparr>text_of = word_text, startMs = JInt start_ms, endMs = JInt end_ms,
              timestampMs = JInt timestamp_ms, confidence = conf\<rparr>])))))))))))"

text \<open>Segment-split tier, the body of \<open>for i, word in enumerate(words)\<close>.\<close>

definition split_word_caption :: "pynum \<Rightarrow> pyfloat \<Rightarrow> nat \<times> pystr \<Rightarrow> exc + caption list" where
  "split_word_caption start_ms duration_per_word iw =
     (case int_times_float (int (fst iw)) duration_per_word of Inl e \<Rightarrow> Inl e
      | Inr offset \<Rightarrow>
     (case int_of_float offset of Inl e \<Rightarrow> Inl e
      | Inr k \<Rightarrow>
     (case num_add start_ms (PInt k) of Inl e \<Rightarrow> Inl e
      | Inr word_start \<Rightarrow>
     (case int_of_float duration_per_word of Inl e \<Rightarrow> Inl e
      | Inr k' \<Rightarrow>
     (case num_add word_start (PInt k') of Inl e \<Rightarrow> Inl e
      | Inr word_end \<Rightarrow>
        Inr [\<lparr>text_of = JStr (snd iw), startMs = json_of_num word_start,
              endMs = json_of_num word_end, timestampMs = json_of_num word_start,
              confidence = JFloat float_0_95\<rparr>])))))"

text \<open>Segment-split tier, the branch \<open>elif 'text' in segment\<close>.\<close>

definition split_segment :: "json \<Rightarrow> exc + caption list" where
  "split_segment segment =
     (case py_getitem segment (u ''text'') of Inl e \<Rightarrow> Inl e
      | Inr t \<Rightarrow>
     (case t of
        JStr s \<Rightarrow>
          (let text = str_strip s in
           if text = [] then Inr []
           else
            (let words = str_split text in
             (case py_get segment (u ''offsets'') (JObj []) of Inl e \<Rightarrow> Inl e
              | Inr offsets \<Rightarrow>
             (case py_get offsets (u ''from'') (JInt 0) of Inl e \<Rightarrow> Inl e
              | Inr start_ms \<Rightarrow>
             (case py_get offsets (u ''to'') (JInt 0) of Inl e \<Rightarrow> Inl e
              | Inr end_ms \<Rightarrow>
             (case py_sub end_ms start_ms of Inl e \<Rightarrow> Inl e
              | Inr d \<Rightarrow>
             (case num_truediv d (max (length words) 1) of Inl e \<Rightarrow> Inl e
              | Inr duration_per_word \<Rightarrow>
             (case num_of start_ms of None \<Rightarrow> Inl TypeError
              | Some start \<Rightarrow>
                for_each (split_word_caption start duration_per_word)
                  (enumerate 0 words)))))))))
      | _ \<Rightarrow> Inl AttributeError))"

text \<open>The body of \<open>for segment in whisper_data['transcription']\<close>: the three tiers.\<close>

definition segment_captions :: "(pystr \<Rightarrow> int option) \<Rightarrow> json \<Rightarrow> exc + caption list" where
  "segment_captions int_of_str segment =
     (case py_contains (u ''tokens'') segment of Inl e \<Rightarrow> Inl e
      | Inr True \<Rightarrow>
          (case py_getitem segment (u ''tokens'') of Inl e \<Rightarrow> Inl e
           | Inr tokens \<Rightarrow>
          (case py_iter tokens of Inl e \<Rightarrow> Inl e
           | Inr ts \<Rightarrow> for_each token_caption ts))
      | Inr False \<Rightarrow>
     (case py_contains (u ''words'') segment of Inl e \<Rightarrow> Inl e
      | Inr True \<Rightarrow>
          (case py_getitem segment (u ''words'') of Inl e \<Rightarrow> Inl e
           | Inr words \<Rightarrow>
          (case py_iter words of Inl e \<Rightarrow> Inl e
           | Inr ws \<Rightarrow> for_each (word_data_caption int_of_str) ws))
      | Inr False \<Rightarrow>
     (case py_contains (u ''text'') segment of Inl e \<Rightarrow> Inl e
      | Inr True \<Rightarrow> split_segment segment
      | Inr False \<Rightarrow> Inr [])))"

text \<open>
  Lines 231 to 299: \<open>captions\<close> as it stands when the loop over the segments is left, or
  the exception that left it.
\<close>

definition extract_captions :: "(pystr \<Rightarrow> int option) \<Rightarrow> json \<Rightarrow> exc + caption list" where
  "extract_captions int_of_str whisper_data =
     (case py_contains (u ''transcription'') whisper_data of Inl e \<Rightarrow> Inl e
      | Inr False \<Rightarrow> Inr []
      | Inr True \<Rightarrow>
          (case py_getitem whisper_data (u ''transcription'') of Inl e \<Rightarrow> Inl e
           | Inr transcription \<Rightarrow>
          (case py_iter transcription of Inl e \<Rightarrow> Inl e
           | Inr segments \<Rightarrow> for_each (segment_captions int_of_str) segments)))"


section \<open>Paths and the file system\<close>

text \<open>
  A path is a string; its components are separated by a slash or a backslash (code points 47 and
  92), as on the platform the application is built for.  Paths are taken without a
  trailing separator and without a drive prefix.
\<close>

definition is_sep :: "nat \<Rightarrow> bool" where
  "is_sep c \<longleftrightarrow> c = 47 \<or> c = 92"

text \<open>\<open>os.path.basename(p)\<close>, also \<open>Path(p).name\<close>.\<close>

definition basename :: "pystr \<Rightarrow> pystr" where
  "basename p = rev (takeWhile (\<lambda>c. \<not> is_sep c) (rev p))"

text \<open>\<open>Path(p).parent\<close>.\<close>

definition parent :: "pystr \<Rightarrow> pystr" where
  "parent p =
     (let d = rev (dropWhile (\<lambda>c. \<not> is_sep c) (rev p))
      in if length d \<le> 1 then d else butlast d)"

text \<open>\<open>os.path.join(a, b)\<close> and \<open>Path(a) / b\<close> for a relative \<open>b\<close>.\<close>

definition os_join :: "pystr \<Rightarrow> pystr \<Rightarrow> pystr" where
  "os_join a b = (if a = [] \<or> is_sep (last a) then a @ b else a @ [92] @ b)"

text \<open>
  The suffix of a file name: from its last dot on, unless that dot is the first or the
  last character.
\<close>

definition suffix :: "pystr \<Rightarrow> pystr" where
  "suffix name =
     (let t = rev (takeWhile (\<lambda>c. c \<noteq> 46) (rev name))
      in if 46 \<in> set name \<and> t \<noteq> [] \<and> length t + 1 < length name then 46 # t else [])"

text \<open>\<open>Path(p).stem\<close>.\<close>

definition stem :: "pystr \<Rightarrow> pystr" where
  "stem p = (let name = basename p in take (length name - length (suffix name)) name)"

text \<open>\<open>Path(p).with_suffix(s)\<close>; \<open>None\<close> is the \<open>ValueError\<close> of an empty name.\<close>

definition with_suffix :: "pystr \<Rightarrow> pystr \<Rightarrow> pystr option" where
  "with_suffix p s =
     (if basename p = [] then None
      else Some (take (length p - length (suffix (basename p))) p @ s))"

text \<open>
  What the parser can see of a file: its bytes decode to text and \<open>json.loads\<close> turns
  the text into a value, or \<open>json.loads\<close> raises \<open>JSONDecodeError\<close>.  (The decoding
  ladder of lines 219 to 227 ends in a lossy decoding that cannot fail.)
\<close>

datatype content = Json_text json | Not_json

text \<open>
  The file system: the files that exist, and the paths for which \<open>os.remove\<close> fails
  (a file held open by another process).  Reading an existing file succeeds; whether
  a file can be written is the environment's, see \<open>json_dump\<close> below.
\<close>

record world =
  files :: "pystr \<rightharpoonup> content"
  locked :: "pystr set"

definition exists :: "world \<Rightarrow> pystr \<Rightarrow> bool" where
  "exists w p \<longleftrightarrow> files w p \<noteq> None"

definition write_file :: "pystr \<Rightarrow> content \<Rightarrow> world \<Rightarrow> world" where
  "write_file p c w = w\<lparr>files := (files w)(p \<mapsto> c)\<rparr>"

definition os_remove :: "pystr \<Rightarrow> world \<Rightarrow> exc + world" where
  "os_remove p w =
     (if \<not> exists w p then Inl OSError
      else if p \<in> locked w then Inl OSError
      else Inr (w\<lparr>files := (files w)(p := None)\<rparr>))"

text \<open>\<open>try: os.remove(p)\<close> / \<open>except: pass\<close>.\<close>

definition remove_best_effort :: "pystr \<Rightarrow> world \<Rightarrow> world" where
  "remove_best_effort p w = (case os_remove p w of Inl e \<Rightarrow> w | Inr w' \<Rightarrow> w')"

text \<open>
  \<open>with open(p, 'w', encoding='utf-8') as f: json.dump(v, f, indent=2, ensure_ascii=False)\<close>.
  What becomes of it is the environment's, given as a function \<open>dump\<close> of the path,
  the value and the file system: the file is written; or \<open>open\<close> raises \<open>OSError\<close> and
  nothing changes; or \<open>json.dump\<close> raises an exception after the file was opened (a
  \<open>UnicodeEncodeError\<close> for a string with a lone surrogate, say), which leaves a file
  that holds the text written so far and is not JSON.  The first component of the result
  is the exception raised, if any.
\<close>

datatype dump_result = Written | Open_failed | Dump_failed exc

definition json_dump ::
  "(pystr \<Rightarrow> json \<Rightarrow> world \<Rightarrow> dump_result) \<Rightarrow> pystr \<Rightarrow> json \<Rightarrow> world \<Rightarrow> exc option \<times> world" where
  "json_dump dump p v w =
     (case dump p v w of
        Written \<Rightarrow> (None, write_file p (Json_text v) w)
      | Open_failed \<Rightarrow> (Some OSError, w)
      | Dump_failed e \<Rightarrow> (Some e, write_file p Not_json w))"


section \<open>\<open>_parse_whisper_output\<close>\<close>

text \<open>\<open>list(whisper_data.keys())\<close>.\<close>

fun keys_of :: "json \<Rightarrow> exc + pystr list" where
  "keys_of (JObj kvs) = Inr (map fst kvs)"
| "keys_of _ = Inl AttributeError"

definition parse_whisper_output ::
  "(pystr \<Rightarrow> int option) \<Rightarrow> (pystr \<Rightarrow> json \<Rightarrow> world \<Rightarrow> dump_result) \<Rightarrow> pystr \<Rightarrow> world \<Rightarrow>
     (exc + caption list) \<times> world" where
  "parse_whisper_output int_of_str dump wav_path w =
     (case with_suffix wav_path (u ''.wav.json'') of None \<Rightarrow> (Inl ValueError, w)
      | Some json_path \<Rightarrow>
        if \<not> exists w json_path then (Inl (Whisper_output_json_not_found json_path), w)
        else
         (case files w json_path of
            Some (Json_text whisper_data) \<Rightarrow>
             (case with_suffix wav_path (u ''.wav.debug.json'') of
                None \<Rightarrow> (Inl (Error_processing_transcription ValueError), w)
              | Some debug_json_path \<Rightarrow>
               (case extract_captions int_of_str whisper_data of
                  Inl e \<Rightarrow> (Inl (Error_processing_transcription e), w)
                | Inr captions \<Rightarrow>
                    if length captions = 0 then
                      (case json_dump dump debug_json_path whisper_data w of
                         (Some e, w') \<Rightarrow> (Inl (Error_processing_transcription e), w')
                       | (None, w') \<Rightarrow>
                          (case keys_of whisper_data of
                             Inl e \<Rightarrow> (Inl (Error_processing_transcription e), w')
                           | Inr keys \<Rightarrow>
                               (Inl (Error_processing_transcription
                                       (No_captions_extracted debug_json_path keys)), w')))
                    else (Inr captions, remove_best_effort json_path w)))
          | _ \<Rightarrow> (Inl Failed_to_parse_whisper_json, w)))"


section \<open>The engine: construction, audio conversion, \<open>transcribe_audio\<close>\<close>

text \<open>What \<open>__init__\<close> reads of the interpreter: \<open>sys.frozen\<close>, \<open>sys._MEIPASS\<close>,
  \<open>sys.executable\<close> and the module's \<open>__file__\<close>.\<close>

record sysinfo =
  frozen :: bool
  meipass :: "pystr option"
  executable :: pystr
  script_file :: pystr

record engine =
  model_name :: pystr
  models_dir :: pystr
  model_path :: pystr
  whisper_exe :: pystr

definition base_dir :: "sysinfo \<Rightarrow> pystr" where
  "base_dir sys =
     (if frozen sys then
        (case meipass sys of Some m \<Rightarrow> m
         | None \<Rightarrow> os_join (parent (executable sys)) (u ''_internal''))
      else parent (script_file sys))"

text \<open>
  The search order as the specification words it: the models directory, its
  \<open>whisper.cpp\<close> subdirectory, the bundled-resource location (when there is one).
  \<open>find_whisper_executable\<close> below is the source's function, to be compared with it.
\<close>

definition whisper_candidates :: "sysinfo \<Rightarrow> pystr \<Rightarrow> pystr list" where
  "whisper_candidates sys mdir =
     [os_join mdir (u ''main.exe''),
      os_join (os_join mdir (u ''whisper.cpp'')) (u ''main.exe'')] @
     (case meipass sys of None \<Rightarrow> []
      | Some m \<Rightarrow> [os_join (os_join m (u ''models'')) (u ''main.exe'')])"

definition find_whisper_executable :: "sysinfo \<Rightarrow> pystr \<Rightarrow> world \<Rightarrow> pystr option" where
  "find_whisper_executable sys mdir w =
     (let exe_path = os_join mdir (u ''main.exe'') in
      if exists w exe_path then Some exe_path
      else
       (let exe_path = os_join (os_join mdir (u ''whisper.cpp'')) (u ''main.exe'') in
        if exists w exe_path then Some exe_path
        else
         (case meipass sys of
            Some m \<Rightarrow>
              (let exe_path = os_join (os_join m (u ''models'')) (u ''main.exe'') in
               if exists w exe_path then Some exe_path else None)
          | None \<Rightarrow> None)))"

text \<open>\<open>TranscriptionEngine.__init__\<close>.\<close>

definition TranscriptionEngine_init :: "sysinfo \<Rightarrow> pystr \<Rightarrow> world \<Rightarrow> exc + engine" where
  "TranscriptionEngine_init sys name w =
     (let mdir = os_join (base_dir sys) (u ''models'');
          mpath = os_join mdir (u ''ggml-'' @ name @ u ''.bin'')
      in if \<not> exists w mpath then Inl (Model_not_found name mpath)
         else
          (case find_whisper_executable sys mdir w of
             None \<Rightarrow> Inl Whisper_executable_not_found
           | Some exe \<Rightarrow>
               Inr \<lparr>model_name = name, models_dir = mdir, model_path = mpath,
                     whisper_exe = exe\<rparr>))"

text \<open>
  What \<open>subprocess.run\<close> does is the environment's: the program is not found
  (\<open>FileNotFoundError\<close>), cannot be started for another reason (\<open>OSError\<close>), or runs to
  its end with a return code and its standard error, given both as the strict UTF-8
  decoding (\<open>None\<close> when the bytes are not UTF-8) and as the decoding that replaces bad
  bytes.  The process may change the file system.
\<close>

datatype run_result =
    Program_not_found
  | Start_failed
  | Completed int "pystr option" pystr

record env =
  int_of_str :: "pystr \<Rightarrow> int option"
  tempdir :: pystr
  ffmpeg :: "pystr list \<Rightarrow> world \<Rightarrow> run_result \<times> world"
  whisper :: "pystr list \<Rightarrow> pystr \<Rightarrow> world \<Rightarrow> run_result \<times> world"
  dump_outcome :: "pystr \<Rightarrow> json \<Rightarrow> world \<Rightarrow> dump_result"

text \<open>
  \<open>_convert_audio_to_wav\<close>; \<open>check=True\<close> turns a non-zero return code into
  \<open>CalledProcessError\<close>, whose handler decodes the standard error strictly (a
  \<open>UnicodeDecodeError\<close> is a \<open>ValueError\<close>).
\<close>

definition ffmpeg_cmd :: "pystr \<Rightarrow> pystr \<Rightarrow> pystr list" where
  "ffmpeg_cmd audio_path wav_path =
     [u ''ffmpeg'', u ''-i'', audio_path, u ''-ar'', u ''16000'', u ''-ac'', u ''1'',
      u ''-c:a'', u ''pcm_s16le'', u ''-y'', wav_path]"

definition convert_audio_to_wav :: "env \<Rightarrow> pystr \<Rightarrow> world \<Rightarrow> (exc + pystr) \<times> world" where
  "convert_audio_to_wav ev audio_path w =
     (let audio_name = stem audio_path;
          wav_path = os_join (tempdir ev) (audio_name @ u ''_16khz.wav'')
      in case ffmpeg ev (ffmpeg_cmd audio_path wav_path) w of
           (Program_not_found, w') \<Rightarrow> (Inl Ffmpeg_not_found, w')
         | (Start_failed, w') \<Rightarrow> (Inl OSError, w')
         | (Completed rc strict lossy, w') \<Rightarrow>
             if rc = 0 then (Inr wav_path, w')
             else (case strict of None \<Rightarrow> (Inl ValueError, w')
                   | Some stderr \<Rightarrow> (Inl (Failed_to_convert_audio stderr), w')))"

text \<open>The \<open>try\<close> block of \<open>transcribe_audio\<close>, lines 151 to 185.\<close>

definition whisper_cmd :: "engine \<Rightarrow> pystr \<Rightarrow> pystr \<Rightarrow> pystr list" where
  "whisper_cmd eng wav_path language =
     [whisper_exe eng, u ''-m'', model_path eng, u ''-f'', wav_path, u ''-oj'',
      u ''-ojf'', u ''-ml'', u ''1'', u ''-l'', language]"

definition run_whisper ::
  "env \<Rightarrow> engine \<Rightarrow> pystr \<Rightarrow> pystr \<Rightarrow> world \<Rightarrow> (exc + caption list) \<times> world" where
  "run_whisper ev eng wav_path language w =
     (case whisper ev (whisper_cmd eng wav_path language) (models_dir eng) w of
        (Program_not_found, w') \<Rightarrow> (Inl OSError, w')
      | (Start_failed, w') \<Rightarrow> (Inl OSError, w')
      | (Completed rc strict lossy, w') \<Rightarrow>
          if rc \<noteq> 0 then
            (Inl (Whisper_transcription_failed
                    (case strict of Some stderr_text \<Rightarrow> stderr_text | None \<Rightarrow> lossy)), w')
          else parse_whisper_output (int_of_str ev) (dump_outcome ev) wav_path w')"

text \<open>The \<open>finally\<close> block of \<open>transcribe_audio\<close>, lines 187 to 193.\<close>

definition cleanup_wav :: "pystr \<Rightarrow> world \<Rightarrow> world" where
  "cleanup_wav wav_path w = (if exists w wav_path then remove_best_effort wav_path w else w)"

definition transcribe_audio ::
  "env \<Rightarrow> engine \<Rightarrow> pystr \<Rightarrow> pystr \<Rightarrow> world \<Rightarrow> (exc + caption list) \<times> world" where
  "transcribe_audio ev eng audio_path language w =
     (case convert_audio_to_wav ev audio_path w of
        (Inl e, w1) \<Rightarrow> (Inl e, w1)
      | (Inr wav_path, w1) \<Rightarrow>
          (case run_whisper ev eng wav_path language w1 of
             (r, w2) \<Rightarrow> (r, cleanup_wav wav_path w2)))"


section \<open>The batch: \<open>TranscriptionThread.run\<close>\<close>

text \<open>
  The lines that \<open>progress.emit\<close> sends, one constructor for each format string of the
  source, holding the values the string interpolates; then the three signals.
\<close>

datatype message =
    Initializing_engine
  | Rule
  | Processing_file nat nat
  | File_label pystr
  | Loading_audio
  | Transcribing_audio
  | Saving_captions_to pystr
  | Generated_segments nat
  | Saved_to pystr
  | Error_processing_file pystr exc
  | Blank
  | Batch_completed
  | Total_files nat
  | Successful_count nat
  | Failed_count nat
  | Successfully_processed
  | Succeeded_file pystr
  | Failed_to_process
  | Failed_file pystr
  | Error_during_batch exc

datatype summary = Processed_successfully nat nat | Batch_error exc

datatype event =
    Progress message
  | File_completed nat nat pystr
  | Finished bool summary

record batch =
  fs :: world
  emitted :: "event list"
  successful_files :: "pystr list"
  failed_files :: "pystr list"

definition emit :: "event list \<Rightarrow> batch \<Rightarrow> batch" where
  "emit es b = b\<lparr>emitted := emitted b @ es\<rparr>"

text \<open>The value that \<open>json.dump(captions, f, ...)\<close> is given.\<close>

definition caption_json :: "caption \<Rightarrow> json" where
  "caption_json c =
     JObj [(u ''text'', text_of c), (u ''startMs'', startMs c), (u ''endMs'', endMs c),
           (u ''timestampMs'', timestampMs c), (u ''confidence'', confidence c)]"

text \<open>The handler \<open>except Exception as e\<close> of the loop body, lines 68 to 71.\<close>

definition record_failure :: "pystr \<Rightarrow> exc \<Rightarrow> batch \<Rightarrow> batch" where
  "record_failure audio_path e b =
     (emit [Progress (Error_processing_file (basename audio_path) e)] b)
       \<lparr>failed_files := failed_files b @ [basename audio_path]\<rparr>"

text \<open>
  The \<open>try\<close> block of the loop body, lines 46 to 66: the exception that leaves it, if
  any, and the batch as it stands then.
\<close>

definition try_process_file ::
  "env \<Rightarrow> engine \<Rightarrow> pystr \<Rightarrow> nat \<Rightarrow> nat \<Rightarrow> pystr \<Rightarrow> batch \<Rightarrow> exc option \<times> batch" where
  "try_process_file ev eng language total_files idx audio_path b =
     (let b1 = emit [Progress Rule, Progress (Processing_file idx total_files),
                     Progress (File_label (basename audio_path)), Progress Rule,
                     Progress Loading_audio, Progress Transcribing_audio] b
      in case transcribe_audio ev eng audio_path language (fs b1) of
           (Inl e, w) \<Rightarrow> (Some e, b1\<lparr>fs := w\<rparr>)
         | (Inr captions, w) \<Rightarrow>
            (case with_suffix audio_path (u ''.json'') of
               None \<Rightarrow> (Some ValueError, b1\<lparr>fs := w\<rparr>)
             | Some output_path \<Rightarrow>
                (let b2 = emit [Progress (Saving_captions_to (basename output_path))] (b1\<lparr>fs := w\<rparr>)
                 in case json_dump (dump_outcome ev) output_path (JArr (map caption_json captions)) (fs b2) of
                      (Some e, w') \<Rightarrow> (Some e, b2\<lparr>fs := w'\<rparr>)
                    | (None, w') \<Rightarrow>
                       (let b3 = b2\<lparr>fs := w'\<rparr>;
                            b4 = emit [Progress (Generated_segments (length captions)),
                                       Progress (Saved_to output_path)] b3;
                            b5 = b4\<lparr>successful_files := successful_files b4 @ [basename audio_path]\<rparr>
                        in (None, emit [File_completed idx total_files (basename audio_path)] b5)))))"

text \<open>
  The body of \<open>for idx, audio_path in enumerate(self.audio_paths, 1)\<close>: the \<open>try\<close> block
  and its handler.
\<close>

definition process_file :: "env \<Rightarrow> engine \<Rightarrow> pystr \<Rightarrow> nat \<Rightarrow> nat \<Rightarrow> pystr \<Rightarrow> batch \<Rightarrow> batch" where
  "process_file ev eng language total_files idx audio_path b =
     (case try_process_file ev eng language total_files idx audio_path b of
        (None, b') \<Rightarrow> b'
      | (Some e, b') \<Rightarrow> record_failure audio_path e b')"

fun process_files ::
  "env \<Rightarrow> engine \<Rightarrow> pystr \<Rightarrow> nat \<Rightarrow> nat \<Rightarrow> pystr list \<Rightarrow> batch \<Rightarrow> batch" where
  "process_files ev eng language total_files idx [] b = b"
| "process_files ev eng language total_files idx (audio_path # rest) b =
     process_files ev eng language total_files (Suc idx) rest
       (process_file ev eng language total_files idx audio_path b)"

text \<open>The final summary, lines 73 to 94.\<close>

definition final_summary :: "nat \<Rightarrow> batch \<Rightarrow> batch" where
  "final_summary total_files b =
     (let b1 = emit [Progress Blank, Progress Rule, Progress Batch_completed, Progress Rule,
                     Progress (Total_files total_files),
                     Progress (Successful_count (length (successful_files b))),
                     Progress (Failed_count (length (failed_files b)))] b;
          b2 = (if successful_files b1 \<noteq> [] then
                  emit (Progress Successfully_processed #
                        map (\<lambda>filename. Progress (Succeeded_file filename)) (successful_files b1)) b1
                else b1);
          b3 = (if failed_files b2 \<noteq> [] then
                  emit (Progress Failed_to_process #
                        map (\<lambda>filename. Progress (Failed_file filename)) (failed_files b2)) b2
                else b2);
          success = (length (failed_files b3) = 0)
      in emit [Finished success
                 (Processed_successfully (length (successful_files b3)) total_files)] b3)"

text \<open>\<open>TranscriptionThread.run\<close>.\<close>

definition run :: "env \<Rightarrow> sysinfo \<Rightarrow> pystr list \<Rightarrow> pystr \<Rightarrow> pystr \<Rightarrow> world \<Rightarrow> batch" where
  "run ev sys audio_paths name language w =
     (let total_files = length audio_paths;
          b = emit [Progress Initializing_engine]
                \<lparr>fs = w, emitted = [], successful_files = [], failed_files = []\<rparr>
      in case TranscriptionEngine_init sys name w of
           Inl e \<Rightarrow> emit [Progress (Error_during_batch e), Finished False (Batch_error e)] b
         | Inr eng \<Rightarrow>
             final_summary total_files
               (process_files ev eng language total_files 1 audio_paths b))"


section \<open>The vocabulary of the claims\<close>

text \<open>
  The token tier as the specification words it: the value of a key of a dict or a
  default, the caption that a token stands for, the tokens that are content (text not
  empty after trimming, not a special token), and the transcripts in which every segment
  carries a list of well-typed tokens.  These are compared with the source's functions
  above.
\<close>

fun get_or :: "json \<Rightarrow> pystr \<Rightarrow> json \<Rightarrow> json" where
  "get_or (JObj kvs) k d = (case map_of kvs k of None \<Rightarrow> d | Some v \<Rightarrow> v)"
| "get_or x k d = d"

fun is_dict :: "json \<Rightarrow> bool" where
  "is_dict (JObj kvs) = True"
| "is_dict x = False"

definition token_offsets :: "json \<Rightarrow> json" where
  "token_offsets tok = get_or tok (u ''offsets'') (JObj [])"

definition caption_of_token :: "json \<Rightarrow> caption" where
  "caption_of_token tok =
     \<lparr>text_of = get_or tok (u ''text'') (JStr []),
      startMs = get_or (token_offsets tok) (u ''from'') (JInt 0),
      endMs = get_or (token_offsets tok) (u ''to'') (JInt 0),
      timestampMs = get_or (token_offsets tok) (u ''from'') (JInt 0),
      confidence = get_or tok (u ''p'') (JFloat float_0_95)\<rparr>"

definition content_token :: "json \<Rightarrow> bool" where
  "content_token tok =
     (case get_or tok (u ''text'') (JStr []) of
        JStr s \<Rightarrow> str_strip s \<noteq> [] \<and> \<not> special_token s
      | _ \<Rightarrow> False)"

definition wf_token :: "json \<Rightarrow> bool" where
  "wf_token tok \<longleftrightarrow>
     is_dict tok \<and>
     (case get_or tok (u ''text'') (JStr []) of JStr s \<Rightarrow> True | _ \<Rightarrow> False) \<and>
     (content_token tok \<longrightarrow> is_dict (token_offsets tok))"

fun tokens_of :: "json \<Rightarrow> json list" where
  "tokens_of (JObj kvs) = (case map_of kvs (u ''tokens'') of Some (JArr ts) \<Rightarrow> ts | _ \<Rightarrow> [])"
| "tokens_of x = []"

definition token_segment :: "json \<Rightarrow> bool" where
  "token_segment seg \<longleftrightarrow>
     (case seg of
        JObj kvs \<Rightarrow> (case map_of kvs (u ''tokens'') of
                       Some (JArr ts) \<Rightarrow> list_all wf_token ts | _ \<Rightarrow> False)
      | _ \<Rightarrow> False)"

fun segments_of :: "json \<Rightarrow> json list" where
  "segments_of (JObj kvs) =
     (case map_of kvs (u ''transcription'') of Some (JArr segs) \<Rightarrow> segs | _ \<Rightarrow> [])"
| "segments_of x = []"

definition token_transcript :: "json \<Rightarrow> bool" where
  "token_transcript d \<longleftrightarrow>
     (case d of
        JObj kvs \<Rightarrow> (case map_of kvs (u ''transcription'') of
                       Some (JArr segs) \<Rightarrow> list_all token_segment segs | _ \<Rightarrow> False)
      | _ \<Rightarrow> False)"

definition content_tokens :: "json \<Rightarrow> json list" where
  "content_tokens d = filter content_token (concat (map tokens_of (segments_of d)))"

fun float_le :: "pyfloat \<Rightarrow> pyfloat \<Rightarrow> bool" where
  "float_le NaN y = False"
| "float_le x NaN = False"
| "float_le NegInf y = True"
| "float_le x PosInf = True"
| "float_le (Finite a) (Finite b) = (a \<le> b)"
| "float_le x y = False"

fun exact_value :: "pynum \<Rightarrow> pyfloat" where
  "exact_value (PInt n) = Finite (of_int n)"
| "exact_value (PFloat f) = f"

definition json_le :: "json \<Rightarrow> json \<Rightarrow> bool" where
  "json_le x y =
     (case num_of x of None \<Rightarrow> False
      | Some a \<Rightarrow> (case num_of y of None \<Rightarrow> False
                   | Some b \<Rightarrow> float_le (exact_value a) (exact_value b)))"

fun nondecreasing :: "json list \<Rightarrow> bool" where
  "nondecreasing (x # y # zs) = (json_le x y \<and> nondecreasing (y # zs))"
| "nondecreasing zs = True"


section \<open>Example inputs\<close>

text \<open>
  An \<open>int_of_str\<close> for the examples: the value of a string of at most 4300 ASCII
  digits.  No example converts a string.
\<close>

definition ascii_int_of_str :: "pystr \<Rightarrow> int option" where
  "ascii_int_of_str s =
     (if s \<noteq> [] \<and> length s \<le> 4300 \<and> list_all (\<lambda>c. 48 \<le> c \<and> c \<le> 57) s
      then Some (foldl (\<lambda>a c. 10 * a + (int c - 48)) 0 s) else None)"

text \<open>
  A \<open>dump\<close> for the examples: every file can be opened, and \<open>json.dump\<close> fails, with
  \<open>UnicodeEncodeError\<close>, exactly on a value that holds a string with a surrogate code
  point (\<open>D800\<close> to \<open>DFFF\<close>), which UTF-8 cannot encode.
\<close>

definition surrogate :: "nat \<Rightarrow> bool" where
  "surrogate c \<longleftrightarrow> 55296 \<le> c \<and> c \<le> 57343"

fun encodable :: "json \<Rightarrow> bool" where
  "encodable (JStr s) = (\<not> list_ex surrogate s)"
| "encodable (JArr xs) = list_all encodable xs"
| "encodable (JObj kvs) = list_all (\<lambda>kv. \<not> list_ex surrogate (fst kv) \<and> encodable (snd kv)) kvs"
| "encodable x = True"

definition utf8_dump :: "pystr \<Rightarrow> json \<Rightarrow> world \<Rightarrow> dump_result" where
  "utf8_dump p v w = (if encodable v then Written else Dump_failed UnicodeEncodeError)"

definition example_wav :: pystr where
  "example_wav = os_join (u ''/tmp'') (u ''interview_16khz.wav'')"

definition example_json :: pystr where
  "example_json = os_join (u ''/tmp'') (u ''interview_16khz.wav.json'')"

definition example_debug :: pystr where
  "example_debug = os_join (u ''/tmp'') (u ''interview_16khz.wav.debug.json'')"

text \<open>A file system that holds the raw output \<open>d\<close> of the engine for \<open>example_wav\<close>.\<close>

definition world_with :: "json \<Rightarrow> world" where
  "world_with d = \<lparr>files = [example_json \<mapsto> Json_text d], locked = {}\<rparr>"

text \<open>A transcript with a token-bearing and a word-bearing segment.\<close>

definition mixed_transcript :: json where
  "mixed_transcript =
     JObj [(u ''transcription'', JArr [
       JObj [(u ''tokens'', JArr [
         JObj [(u ''text'', JStr (u ''[_BEG_]''))],
         JObj [(u ''text'', JStr (u '' Hello'')),
               (u ''offsets'', JObj [(u ''from'', JInt 0), (u ''to'', JInt 400)]),
               (u ''p'', JFloat (Finite (1 / 2)))]])],
       JObj [(u ''words'', JArr [
         JObj [(u ''word'', JStr (u ''world'')), (u ''start'', JInt 1), (u ''end'', JInt 2)]])]])]"


definition hello_token :: json where
  "hello_token =
     JObj [(u ''text'', JStr (u '' Hello'')),
           (u ''offsets'', JObj [(u ''from'', JInt 0), (u ''to'', JInt 400)]),
           (u ''p'', JFloat (Finite (1 / 2)))]"

definition hello_segment :: json where
  "hello_segment = JObj [(u ''tokens'', JArr [JObj [(u ''text'', JStr (u ''[_BEG_]''))], hello_token])]"

definition hello_transcript :: json where
  "hello_transcript = JObj [(u ''transcription'', JArr [hello_segment])]"

definition text_segment :: json where
  "text_segment = JObj [(u ''text'', JStr (u '' day ''))]"

definition empty_word_transcript :: json where
  "empty_word_transcript =
     JObj [(u ''transcription'', JArr [JObj [(u ''words'', JArr [JObj [(u ''word'', JStr [])]])]])]"

definition marker_text_transcript :: json where
  "marker_text_transcript =
     JObj [(u ''transcription'', JArr [JObj [(u ''text'', JStr (u '' [_BEG_] ''))]])]"

definition unsorted_transcript :: json where
  "unsorted_transcript =
     JObj [(u ''transcription'', JArr [JObj [(u ''tokens'', JArr [
       JObj [(u ''text'', JStr (u '' b'')), (u ''offsets'', JObj [(u ''from'', JInt 500), (u ''to'', JInt 600)])],
       JObj [(u ''text'', JStr (u '' a'')), (u ''offsets'', JObj [(u ''from'', JInt 100), (u ''to'', JInt 200)])]])]])]"


definition empty_transcript :: json where
  "empty_transcript = JObj [(u ''systeminfo'', JStr (u ''AVX = 1'')), (u ''transcription'', JArr [])]"

text \<open>
  A transcript without captions whose \<open>systeminfo\<close> string is an \<open>x\<close> followed by the
  lone surrogate \<open>D800\<close>; \<open>json.loads\<close> accepts the escape for it.
\<close>

definition surrogate_transcript :: json where
  "surrogate_transcript =
     JObj [(u ''systeminfo'', JStr (u ''x'' @ [55296])), (u ''transcription'', JArr [])]"

text \<open>
  A transcript whose only token holds the text \<open>x\<close> followed by the lone surrogate
  \<open>D800\<close>: its caption is extracted, and cannot be written as UTF-8.
\<close>

definition surrogate_token :: json where
  "surrogate_token = JObj [(u ''text'', JStr (u ''x'' @ [55296]))]"

definition surrogate_token_transcript :: json where
  "surrogate_token_transcript =
     JObj [(u ''transcription'', JArr [JObj [(u ''tokens'', JArr [surrogate_token])]])]"

definition world_with_garbage :: world where
  "world_with_garbage = \<lparr>files = [example_json \<mapsto> Not_json], locked = {}\<rparr>"


definition dev_sys :: sysinfo where
  "dev_sys = \<lparr>frozen = False, meipass = None, executable = u ''/usr/bin/python'',
              script_file = u ''/app/transcription_engine.py''\<rparr>"

definition app_models :: pystr where
  "app_models = os_join (u ''/app'') (u ''models'')"

definition small_model :: pystr where
  "small_model = os_join app_models (u ''ggml-small.bin'')"

definition built_exe :: pystr where
  "built_exe = os_join (os_join app_models (u ''whisper.cpp'')) (u ''main.exe'')"

definition installed_world :: world where
  "installed_world = \<lparr>files = [small_model \<mapsto> Not_json, built_exe \<mapsto> Not_json], locked = {}\<rparr>"

definition model_only_world :: world where
  "model_only_world = \<lparr>files = [small_model \<mapsto> Not_json], locked = {}\<rparr>"

definition small_engine :: engine where
  "small_engine = \<lparr>model_name = u ''small'', models_dir = app_models, model_path = small_model,
                    whisper_exe = built_exe\<rparr>"

definition example_ffmpeg :: "pystr list \<Rightarrow> world \<Rightarrow> run_result \<times> world" where
  "example_ffmpeg cmd w = (Completed 0 (Some []) [], write_file (last cmd) Not_json w)"

definition failing_whisper :: "pystr list \<Rightarrow> pystr \<Rightarrow> world \<Rightarrow> run_result \<times> world" where
  "failing_whisper cmd cwd w = (Completed 1 (Some (u ''failed to load model'')) (u ''failed to load model''), w)"

definition writing_whisper :: "json \<Rightarrow> pystr list \<Rightarrow> pystr \<Rightarrow> world \<Rightarrow> run_result \<times> world" where
  "writing_whisper d cmd cwd w =
     (Completed 0 (Some []) [], write_file (cmd ! 4 @ u ''.json'') (Json_text d) w)"

definition example_env :: "(pystr list \<Rightarrow> pystr \<Rightarrow> world \<Rightarrow> run_result \<times> world) \<Rightarrow> env" where
  "example_env wh = \<lparr>int_of_str = ascii_int_of_str, tempdir = u ''/tmp'', ffmpeg = example_ffmpeg,
                      whisper = wh, dump_outcome = utf8_dump\<rparr>"

definition interview_mp3 :: pystr where
  "interview_mp3 = u ''/home/me/interview.mp3''"


definition empty_world :: world where
  "empty_world = \<lparr>files = Map.empty, locked = {}\<rparr>"

definition locked_world :: world where
  "locked_world = \<lparr>files = Map.empty, locked = {example_wav}\<rparr>"


fun is_start :: "event \<Rightarrow> bool" where
  "is_start (Progress (Processing_file i n)) = True"
| "is_start ev = False"

definition start_events :: "nat \<Rightarrow> nat \<Rightarrow> pystr \<Rightarrow> event list" where
  "start_events idx total_files audio_path =
     [Progress Rule, Progress (Processing_file idx total_files),
      Progress (File_label (basename audio_path)), Progress Rule,
      Progress Loading_audio, Progress Transcribing_audio]"

definition initial_batch :: "world \<Rightarrow> batch" where
  "initial_batch w =
     \<lparr>fs = w, emitted = [Progress Initializing_engine], successful_files = [], failed_files = []\<rparr>"

definition batch_after :: "env \<Rightarrow> engine \<Rightarrow> pystr \<Rightarrow> pystr list \<Rightarrow> world \<Rightarrow> nat \<Rightarrow> batch" where
  "batch_after ev eng language audio_paths w k =
     process_files ev eng language (length audio_paths) 1 (take k audio_paths) (initial_batch w)"


definition broken_mp3 :: pystr where
  "broken_mp3 = u ''/home/me/broken.mp3''"

definition selective_whisper :: "pystr list \<Rightarrow> pystr \<Rightarrow> world \<Rightarrow> run_result \<times> world" where
  "selective_whisper cmd cwd w =
     (if cmd ! 4 = example_wav then writing_whisper hello_transcript cmd cwd w
      else failing_whisper cmd cwd w)"

definition failing_ffmpeg :: "pystr list \<Rightarrow> world \<Rightarrow> run_result \<times> world" where
  "failing_ffmpeg cmd w = (Completed 1 (Some (u ''Invalid data'')) (u ''Invalid data''), w)"

definition no_ffmpeg_env :: env where
  "no_ffmpeg_env = \<lparr>int_of_str = ascii_int_of_str, tempdir = u ''/tmp'', ffmpeg = failing_ffmpeg,
                     whisper = failing_whisper, dump_outcome = utf8_dump\<rparr>"

definition exe_only_world :: world where
  "exe_only_world = \<lparr>files = [built_exe \<mapsto> Not_json], locked = {}\<rparr>"


section \<open>Evaluation of the examples\<close>

lemmas path_defs = with_suffix_def basename_def is_sep_def suffix_def stem_def os_join_def parent_def

lemmas str_defs = u_def isspace_def str_strip_def startswith_def endswith_def special_token_def

lemmas parse_defs = parse_whisper_output_def extract_captions_def segment_captions_def
  token_caption_def word_data_caption_def exists_def remove_best_effort_def os_remove_def
  write_file_def json_dump_def utf8_dump_def surrogate_def

lemma example_json_path:
  "with_suffix example_wav (u ''.wav.json'') = Some example_json"
  by (simp add: example_wav_def example_json_def example_debug_def path_defs u_def)

lemma parse_mixed_transcript:
  "fst (parse_whisper_output ascii_int_of_str utf8_dump example_wav (world_with mixed_transcript)) =
   Inr [\<lparr>text_of = JStr (u '' Hello''), startMs = JInt 0, endMs = JInt 400,
          timestampMs = JInt 0, confidence = JFloat (Finite (1 / 2))\<rparr>,
        \<lparr>text_of = JStr (u ''world''), startMs = JInt 1000, endMs = JInt 2000,
          timestampMs = JInt 1000, confidence = JFloat float_0_95\<rparr>]"
  by (simp add: parse_defs path_defs str_defs example_wav_def example_json_def example_debug_def world_with_def
        mixed_transcript_def)


section \<open>The loop over a list\<close>

lemma for_each_member:
  "for_each f xs = Inr ys \<Longrightarrow> y \<in> set ys \<Longrightarrow> \<exists>x\<in>set xs. \<exists>zs. f x = Inr zs \<and> y \<in> set zs"
proof (induction xs arbitrary: ys)
  case Nil
  then show ?case by simp
next
  case (Cons x xs)
  then show ?case
    by (auto split: sum.splits)
qed

lemma for_each_all:
  "(\<And>x. x \<in> set xs \<Longrightarrow> f x = Inr (g x)) \<Longrightarrow> for_each f xs = Inr (concat (map g xs))"
  by (induction xs) auto

lemma parse_Inr:
  "fst (parse_whisper_output ios dmp wav w) = Inr cs \<Longrightarrow>
   \<exists>jp d. with_suffix wav (u ''.wav.json'') = Some jp \<and> files w jp = Some (Json_text d) \<and>
          extract_captions ios d = Inr cs \<and> cs \<noteq> []"
  by (auto simp: parse_whisper_output_def Let_def
           split: option.splits if_splits content.splits sum.splits prod.splits)


section \<open>The timestamp of a caption\<close>

lemma token_caption_timestamp:
  "token_caption t = Inr cs \<Longrightarrow> c \<in> set cs \<Longrightarrow> timestampMs c = startMs c"
  by (auto simp: token_caption_def split: sum.splits json.splits if_splits)

lemma word_data_caption_timestamp:
  "word_data_caption ios t = Inr cs \<Longrightarrow> c \<in> set cs \<Longrightarrow> timestampMs c = startMs c"
  by (auto simp: word_data_caption_def split: sum.splits)

lemma split_word_caption_timestamp:
  "split_word_caption s d iw = Inr cs \<Longrightarrow> c \<in> set cs \<Longrightarrow> timestampMs c = startMs c"
  by (auto simp: split_word_caption_def split: sum.splits)

lemma split_segment_timestamp:
  "split_segment seg = Inr cs \<Longrightarrow> c \<in> set cs \<Longrightarrow> timestampMs c = startMs c"
  by (auto simp: split_segment_def Let_def split: sum.splits json.splits if_splits option.splits
           dest!: for_each_member dest: split_word_caption_timestamp)

lemma segment_captions_timestamp:
  "segment_captions ios seg = Inr cs \<Longrightarrow> c \<in> set cs \<Longrightarrow> timestampMs c = startMs c"
  by (auto simp: segment_captions_def split: sum.splits bool.splits
           dest!: for_each_member
           dest: token_caption_timestamp word_data_caption_timestamp split_segment_timestamp)

lemma extract_captions_timestamp:
  "extract_captions ios d = Inr cs \<Longrightarrow> c \<in> set cs \<Longrightarrow> timestampMs c = startMs c"
  by (auto simp: extract_captions_def split: sum.splits bool.splits
           dest!: for_each_member dest: segment_captions_timestamp)

text \<open>
  Claim C9.  Every caption that \<open>_parse_whisper_output\<close> returns, from whichever of the
  three tiers (token, word, segment-split) it comes, has a \<open>timestampMs\<close> field equal
  to its \<open>startMs\<close> field.
\<close>

theorem timestamp_equals_start:
  "fst (parse_whisper_output ios dmp wav_path w) = Inr captions \<Longrightarrow> c \<in> set captions \<Longrightarrow>
   timestampMs c = startMs c"
  by (auto dest!: parse_Inr dest: extract_captions_timestamp)

theorem timestamp_equals_start_witness:
  "fst (parse_whisper_output ascii_int_of_str utf8_dump example_wav (world_with mixed_transcript)) =
     Inr [\<lparr>text_of = JStr (u '' Hello''), startMs = JInt 0, endMs = JInt 400,
            timestampMs = JInt 0, confidence = JFloat (Finite (1 / 2))\<rparr>,
          \<lparr>text_of = JStr (u ''world''), startMs = JInt 1000, endMs = JInt 2000,
            timestampMs = JInt 1000, confidence = JFloat float_0_95\<rparr>] \<and>
   timestampMs \<lparr>text_of = JStr (u ''world''), startMs = JInt 1000, endMs = JInt 2000,
            timestampMs = JInt 1000, confidence = JFloat float_0_95\<rparr> =
   startMs \<lparr>text_of = JStr (u ''world''), startMs = JInt 1000, endMs = JInt 2000,
            timestampMs = JInt 1000, confidence = JFloat float_0_95\<rparr>"
  using timestamp_equals_start [OF parse_mixed_transcript,
      of "\<lparr>text_of = JStr (u ''world''), startMs = JInt 1000, endMs = JInt 2000,
            timestampMs = JInt 1000, confidence = JFloat float_0_95\<rparr>"]
    parse_mixed_transcript
  by simp



section \<open>The text of a caption\<close>

lemma to_double_0 [simp]: "to_double 0 = Finite 0"
  by (simp add: to_double_def round_double_def)

lemma float_of_int_0 [simp]: "float_of_int 0 = Inr (Finite 0)"
  by (simp add: float_of_int_def)

lemma trunc_0 [simp]: "trunc 0 = 0"
  by (simp add: trunc_def)







lemmas split_defs = split_segment_def split_word_caption_def py_sub_def int_times_float_def

lemma split_hi:
  "segment_captions ascii_int_of_str (JObj [(u ''text'', JStr (u '' [_BEG_] ''))]) =
   Inr [\<lparr>text_of = JStr (u ''[_BEG_]''), startMs = JInt 0, endMs = JInt 0,
          timestampMs = JInt 0, confidence = JFloat float_0_95\<rparr>]"
  by (simp add: segment_captions_def split_defs str_defs)

lemmas example_defs = example_wav_def example_json_def example_debug_def world_with_def hello_token_def hello_segment_def
  hello_transcript_def text_segment_def empty_word_transcript_def marker_text_transcript_def
  unsorted_transcript_def






section \<open>The token tier\<close>

lemma token_caption_wf:
  "wf_token tok \<Longrightarrow>
   token_caption tok = Inr (if content_token tok then [caption_of_token tok] else [])"
  by (cases tok)
     (auto simp: wf_token_def token_caption_def content_token_def caption_of_token_def
        token_offsets_def
        split: json.splits option.splits elim!: is_dict.elims)

lemma token_segment_captions:
  assumes "token_segment seg"
  shows "segment_captions ios seg = Inr (map caption_of_token (filter content_token (tokens_of seg)))"
proof -
  from assms obtain kvs where s1: "seg = JObj kvs"
    by (cases seg) (auto simp: token_segment_def)
  with assms obtain v where s2: "map_of kvs (u ''tokens'') = Some v"
    by (cases "map_of kvs (u ''tokens'')") (auto simp: token_segment_def)
  with assms s1 obtain ts where s3: "v = JArr ts" and wf: "list_all wf_token ts"
    by (cases v) (auto simp: token_segment_def)
  from s1 s2 s3 have seg: "seg = JObj kvs" "map_of kvs (u ''tokens'') = Some (JArr ts)"
    by simp_all
  have "for_each token_caption ts =
          Inr (concat (map (\<lambda>t. if content_token t then [caption_of_token t] else []) ts))"
    using wf by (intro for_each_all) (auto simp: list_all_iff token_caption_wf)
  also have "concat (map (\<lambda>t. if content_token t then [caption_of_token t] else []) ts) =
             map caption_of_token (filter content_token ts)"
    by (induction ts) auto
  finally show ?thesis using seg by (simp add: segment_captions_def)
qed

lemma token_transcript_captions:
  assumes "token_transcript d"
  shows "extract_captions ios d = Inr (map caption_of_token (content_tokens d))"
proof -
  from assms obtain kvs where s1: "d = JObj kvs"
    by (cases d) (auto simp: token_transcript_def)
  with assms obtain v where s2: "map_of kvs (u ''transcription'') = Some v"
    by (cases "map_of kvs (u ''transcription'')") (auto simp: token_transcript_def)
  with assms s1 obtain segs where s3: "v = JArr segs" and wf: "list_all token_segment segs"
    by (cases v) (auto simp: token_transcript_def)
  from s1 s2 s3 have d: "d = JObj kvs" "map_of kvs (u ''transcription'') = Some (JArr segs)"
    by simp_all
  have "for_each (segment_captions ios) segs =
          Inr (concat (map (\<lambda>s. map caption_of_token (filter content_token (tokens_of s))) segs))"
    using wf by (intro for_each_all) (auto simp: list_all_iff token_segment_captions)
  also have "concat (map (\<lambda>s. map caption_of_token (filter content_token (tokens_of s))) segs) =
             map caption_of_token (filter content_token (concat (map tokens_of segs)))"
    by (induction segs) auto
  finally show ?thesis using d by (simp add: extract_captions_def content_tokens_def)
qed

lemma with_suffix_Some:
  "with_suffix p s = Some q \<Longrightarrow> \<exists>q'. with_suffix p s' = Some q'"
  by (auto simp: with_suffix_def split: if_splits)

lemma parse_nonempty:
  assumes "with_suffix wav (u ''.wav.json'') = Some jp" and "files w jp = Some (Json_text d)"
    and "extract_captions ios d = Inr cs" and "cs \<noteq> []"
  shows "parse_whisper_output ios dmp wav w = (Inr cs, remove_best_effort jp w)"
  using assms with_suffix_Some [OF assms(1), of "u ''.wav.debug.json''"]
  by (auto simp: parse_whisper_output_def exists_def)

text \<open>
  Claim C1, as amended.  For a decoded transcript whose segments all carry a list of
  well-typed tokens, the extraction emits exactly one caption for each token whose text
  is not empty after trimming and is not a special token, in input order: its text is
  the token's text, its \<open>startMs\<close> and \<open>timestampMs\<close> are \<open>offsets.from\<close> (0 when
  absent), its \<open>endMs\<close> is \<open>offsets.to\<close> (0 when absent), its confidence is \<open>p\<close>
  (0.95 when absent); the number of captions is the number of such tokens, and when
  there is one, \<open>_parse_whisper_output\<close> returns that list.  The captions are not
  sorted: their \<open>startMs\<close> values are non-decreasing exactly when the \<open>offsets.from\<close>
  values of those tokens are.
\<close>

theorem token_tier_captions:
  assumes "token_transcript d"
  shows "extract_captions ios d = Inr (map caption_of_token (content_tokens d)) \<and>
         length (map caption_of_token (content_tokens d)) = length (content_tokens d) \<and>
         (with_suffix wav_path (u ''.wav.json'') = Some json_path \<and>
          files w json_path = Some (Json_text d) \<and> content_tokens d \<noteq> [] \<longrightarrow>
            fst (parse_whisper_output ios dmp wav_path w) = Inr (map caption_of_token (content_tokens d))) \<and>
         (nondecreasing (map startMs (map caption_of_token (content_tokens d))) \<longleftrightarrow>
          nondecreasing (map (\<lambda>tok. get_or (token_offsets tok) (u ''from'') (JInt 0)) (content_tokens d)))"
proof -
  have e: "extract_captions ios d = Inr (map caption_of_token (content_tokens d))"
    using assms by (rule token_transcript_captions)
  have s: "map startMs (map caption_of_token (content_tokens d)) =
        map (\<lambda>tok. get_or (token_offsets tok) (u ''from'') (JInt 0)) (content_tokens d)"
    by (simp add: caption_of_token_def)
  have p: "fst (parse_whisper_output ios dmp wav_path w) = Inr (map caption_of_token (content_tokens d))"
    if "with_suffix wav_path (u ''.wav.json'') = Some json_path"
      and "files w json_path = Some (Json_text d)" and "content_tokens d \<noteq> []"
    using that e by (simp add: parse_nonempty)
  from e p show ?thesis
    by (simp only: s) simp
qed

lemma unsorted_wf: "token_transcript unsorted_transcript"
  by (simp add: token_transcript_def token_segment_def wf_token_def content_token_def
        token_offsets_def str_defs example_defs)

lemma unsorted_content:
  "content_tokens unsorted_transcript =
     [JObj [(u ''text'', JStr (u '' b'')), (u ''offsets'', JObj [(u ''from'', JInt 500), (u ''to'', JInt 600)])],
      JObj [(u ''text'', JStr (u '' a'')), (u ''offsets'', JObj [(u ''from'', JInt 100), (u ''to'', JInt 200)])]]"
  by (simp add: content_tokens_def content_token_def str_defs example_defs)

theorem token_order_counterexample:
  "fst (parse_whisper_output ascii_int_of_str utf8_dump example_wav (world_with unsorted_transcript)) =
     Inr [\<lparr>text_of = JStr (u '' b''), startMs = JInt 500, endMs = JInt 600,
            timestampMs = JInt 500, confidence = JFloat float_0_95\<rparr>,
          \<lparr>text_of = JStr (u '' a''), startMs = JInt 100, endMs = JInt 200,
            timestampMs = JInt 100, confidence = JFloat float_0_95\<rparr>] \<and>
   \<not> nondecreasing [JInt 500, JInt 100]"
  by (simp add: parse_defs path_defs str_defs example_defs json_le_def)

lemma hello_wf: "token_transcript hello_transcript"
  by (simp add: token_transcript_def token_segment_def wf_token_def content_token_def
        token_offsets_def str_defs example_defs)

lemma hello_content: "content_tokens hello_transcript = [hello_token]"
  by (simp add: content_tokens_def content_token_def str_defs example_defs)

theorem token_tier_captions_witness:
  "token_transcript hello_transcript \<and>
   content_tokens hello_transcript = [hello_token] \<and>
   extract_captions ascii_int_of_str hello_transcript = Inr [caption_of_token hello_token] \<and>
   with_suffix example_wav (u ''.wav.json'') = Some example_json \<and>
   files (world_with hello_transcript) example_json =
     Some (Json_text hello_transcript) \<and>
   fst (parse_whisper_output ascii_int_of_str utf8_dump example_wav (world_with hello_transcript)) =
     Inr [caption_of_token hello_token] \<and>
   caption_of_token hello_token =
     \<lparr>text_of = JStr (u '' Hello''), startMs = JInt 0, endMs = JInt 400,
       timestampMs = JInt 0, confidence = JFloat (Finite (1 / 2))\<rparr> \<and>
   nondecreasing (map startMs [caption_of_token hello_token])"
proof -
  have f: "files (world_with hello_transcript) example_json =
     Some (Json_text hello_transcript)"
    by (simp add: world_with_def)
  have c: "caption_of_token hello_token =
     \<lparr>text_of = JStr (u '' Hello''), startMs = JInt 0, endMs = JInt 400,
       timestampMs = JInt 0, confidence = JFloat (Finite (1 / 2))\<rparr>"
    by (simp add: caption_of_token_def token_offsets_def hello_token_def u_def)
  from token_tier_captions [OF hello_wf, of ascii_int_of_str example_wav
      "example_json" "world_with hello_transcript"]
    hello_wf hello_content example_json_path f c
  show ?thesis by simp
qed


section \<open>The empty result and the raw output\<close>

lemma example_debug_path:
  "with_suffix example_wav (u ''.wav.debug.json'') = Some example_debug"
  by (simp add: example_wav_def example_json_def example_debug_def path_defs u_def)

lemma parse_never_empty: "fst (parse_whisper_output ios dmp wav w) \<noteq> Inr []"
  by (auto simp: parse_whisper_output_def Let_def
           split: option.splits if_splits content.splits sum.splits prod.splits)

lemma parse_no_captions:
  assumes "with_suffix wav (u ''.wav.json'') = Some jp" and "files w jp = Some (Json_text d)"
    and "extract_captions ios d = Inr []"
    and "with_suffix wav (u ''.wav.debug.json'') = Some dbg"
  shows "parse_whisper_output ios dmp wav w =
           (case json_dump dmp dbg d w of
              (Some e, w') \<Rightarrow> (Inl (Error_processing_transcription e), w')
            | (None, w') \<Rightarrow>
                (Inl (Error_processing_transcription
                       (case keys_of d of Inl e \<Rightarrow> e
                        | Inr keys \<Rightarrow> No_captions_extracted dbg keys)), w'))"
  using assms
  by (simp add: parse_whisper_output_def exists_def split: sum.splits prod.splits option.splits)

lemma json_dump_written:
  "dmp p v w = Written \<Longrightarrow> json_dump dmp p v w = (None, write_file p (Json_text v) w)"
  by (simp add: json_dump_def)

text \<open>
  Claim C3, as amended.  When the raw output decodes to a JSON value from which the
  extraction ladder emits no caption, \<open>_parse_whisper_output\<close> fails with the error for
  a failed processing; whatever its input, it never returns an empty list.  When the
  debug artifact can be written, it holds the decoded value afterwards, and when
  moreover the decoded value is a JSON object, the error wraps the message that lists
  the top-level keys of the object.  (For a decoded value that is no object, and when
  writing the debug artifact fails, the error wraps another exception, which holds no
  keys: see the counterexample.)
\<close>

theorem empty_result_policy:
  assumes "with_suffix wav_path (u ''.wav.json'') = Some json_path"
    and "files w json_path = Some (Json_text whisper_data)"
    and "extract_captions ios whisper_data = Inr []"
    and "with_suffix wav_path (u ''.wav.debug.json'') = Some debug_json_path"
  shows "fst (parse_whisper_output ios' dmp' wav_path' w') \<noteq> Inr [] \<and>
         (\<exists>e. fst (parse_whisper_output ios dmp wav_path w) =
                Inl (Error_processing_transcription e) \<and>
              (dmp debug_json_path whisper_data w = Written \<longrightarrow>
                 files (snd (parse_whisper_output ios dmp wav_path w)) debug_json_path =
                   Some (Json_text whisper_data)) \<and>
              (dmp debug_json_path whisper_data w = Written \<and> whisper_data = JObj kvs \<longrightarrow>
                 e = No_captions_extracted debug_json_path (map fst kvs)))"
proof -
  note p = parse_no_captions [OF assms, of dmp]
  show ?thesis
  proof (cases "dmp debug_json_path whisper_data w = Written")
    case True
    let ?e = "case keys_of whisper_data of Inl e \<Rightarrow> e
              | Inr keys \<Rightarrow> No_captions_extracted debug_json_path keys"
    from True p have q: "parse_whisper_output ios dmp wav_path w =
        (Inl (Error_processing_transcription ?e),
         write_file debug_json_path (Json_text whisper_data) w)"
      by (simp add: json_dump_written)
    have "whisper_data = JObj kvs \<longrightarrow> ?e = No_captions_extracted debug_json_path (map fst kvs)"
      by simp
    with q parse_never_empty [of ios' dmp' wav_path' w'] show ?thesis
      by (intro conjI exI [of _ ?e]) (simp_all add: write_file_def)
  next
    case False
    then obtain e w1 where "json_dump dmp debug_json_path whisper_data w = (Some e, w1)"
      by (cases "dmp debug_json_path whisper_data w") (simp_all add: json_dump_def)
    with p have "fst (parse_whisper_output ios dmp wav_path w) =
        Inl (Error_processing_transcription e)"
      by simp
    with False parse_never_empty [of ios' dmp' wav_path' w'] show ?thesis
      by blast
  qed
qed

lemma extract_empty_transcript: "extract_captions ascii_int_of_str empty_transcript = Inr []"
  by (simp add: extract_captions_def empty_transcript_def u_def)

lemma dump_empty_transcript:
  "utf8_dump example_debug empty_transcript (world_with empty_transcript) = Written"
  by (simp add: utf8_dump_def empty_transcript_def surrogate_def u_def)

theorem empty_result_policy_witness:
  "with_suffix example_wav (u ''.wav.json'') = Some example_json \<and>
   files (world_with empty_transcript) example_json = Some (Json_text empty_transcript) \<and>
   extract_captions ascii_int_of_str empty_transcript = Inr [] \<and>
   with_suffix example_wav (u ''.wav.debug.json'') = Some example_debug \<and>
   utf8_dump example_debug empty_transcript (world_with empty_transcript) = Written \<and>
   fst (parse_whisper_output ascii_int_of_str utf8_dump example_wav (world_with empty_transcript)) =
     Inl (Error_processing_transcription
            (No_captions_extracted example_debug [u ''systeminfo'', u ''transcription''])) \<and>
   files (snd (parse_whisper_output ascii_int_of_str utf8_dump example_wav (world_with empty_transcript)))
     example_debug = Some (Json_text empty_transcript)"
proof -
  have f: "files (world_with empty_transcript) example_json = Some (Json_text empty_transcript)"
    by (simp add: world_with_def)
  from empty_result_policy [OF example_json_path f extract_empty_transcript example_debug_path,
      where ios' = ascii_int_of_str and dmp' = utf8_dump and wav_path' = example_wav
        and w' = "world_with empty_transcript" and dmp = utf8_dump
        and kvs = "[(u ''systeminfo'', JStr (u ''AVX = 1'')), (u ''transcription'', JArr [])]"]
  obtain e where
    "fst (parse_whisper_output ascii_int_of_str utf8_dump example_wav (world_with empty_transcript)) =
       Inl (Error_processing_transcription e)"
    "files (snd (parse_whisper_output ascii_int_of_str utf8_dump example_wav
       (world_with empty_transcript))) example_debug = Some (Json_text empty_transcript)"
    "e = No_captions_extracted example_debug [u ''systeminfo'', u ''transcription'']"
    using dump_empty_transcript by (auto simp: empty_transcript_def)
  then show ?thesis
    using example_json_path f extract_empty_transcript example_debug_path dump_empty_transcript
    by simp
qed

theorem empty_result_counterexample:
  "extract_captions ascii_int_of_str (JArr []) = Inr [] \<and>
   fst (parse_whisper_output ascii_int_of_str utf8_dump example_wav (world_with (JArr []))) =
     Inl (Error_processing_transcription AttributeError) \<and>
   extract_captions ascii_int_of_str surrogate_transcript = Inr [] \<and>
   fst (parse_whisper_output ascii_int_of_str utf8_dump example_wav
          (world_with surrogate_transcript)) =
     Inl (Error_processing_transcription UnicodeEncodeError) \<and>
   files (snd (parse_whisper_output ascii_int_of_str utf8_dump example_wav
                 (world_with surrogate_transcript))) example_debug = Some Not_json"
  by (simp add: parse_defs path_defs str_defs example_wav_def example_json_def example_debug_def
        world_with_def surrogate_transcript_def)

text \<open>
  Claim C5.  The claim is that the raw output is deleted on the success path and on
  every failure path.  The source deletes it after the test for an empty result
  (lines 315 to 319), so the two \<open>raise\<close> paths leave before the deletion: with a
  transcript that yields no caption, and with a file that is not JSON, the parser fails
  and the raw output still exists; on the success path it is gone.
\<close>

theorem raw_output_kept_on_failure:
  "fst (parse_whisper_output ascii_int_of_str utf8_dump example_wav (world_with empty_transcript)) =
     Inl (Error_processing_transcription
            (No_captions_extracted example_debug
               [u ''systeminfo'', u ''transcription''])) \<and>
   exists (snd (parse_whisper_output ascii_int_of_str utf8_dump example_wav (world_with empty_transcript)))
     example_json \<and>
   fst (parse_whisper_output ascii_int_of_str utf8_dump example_wav world_with_garbage) =
     Inl Failed_to_parse_whisper_json \<and>
   exists (snd (parse_whisper_output ascii_int_of_str utf8_dump example_wav world_with_garbage))
     example_json \<and>
   fst (parse_whisper_output ascii_int_of_str utf8_dump example_wav (world_with mixed_transcript)) =
     Inr [\<lparr>text_of = JStr (u '' Hello''), startMs = JInt 0, endMs = JInt 400,
            timestampMs = JInt 0, confidence = JFloat (Finite (1 / 2))\<rparr>,
          \<lparr>text_of = JStr (u ''world''), startMs = JInt 1000, endMs = JInt 2000,
            timestampMs = JInt 1000, confidence = JFloat float_0_95\<rparr>] \<and>
   \<not> exists (snd (parse_whisper_output ascii_int_of_str utf8_dump example_wav (world_with mixed_transcript)))
     example_json"
  by (simp add: parse_defs path_defs str_defs example_defs empty_transcript_def
        world_with_garbage_def mixed_transcript_def)


section \<open>Engine discovery\<close>

lemma find_whisper_executable_find:
  "find_whisper_executable sys mdir w = find (exists w) (whisper_candidates sys mdir)"
  by (simp add: find_whisper_executable_def whisper_candidates_def Let_def split: option.splits)

lemma parse_not_discovery:
  "fst (parse_whisper_output ios dmp wav w) \<noteq> Inl Whisper_executable_not_found"
  by (auto simp: parse_whisper_output_def Let_def
           split: option.splits if_splits content.splits sum.splits prod.splits)

lemma run_whisper_not_discovery:
  "fst (run_whisper ev eng wav language w) \<noteq> Inl Whisper_executable_not_found"
  using parse_not_discovery
  by (auto simp: run_whisper_def Let_def split: prod.splits run_result.splits)

lemma convert_not_discovery:
  "fst (convert_audio_to_wav ev audio w) \<noteq> Inl Whisper_executable_not_found"
  by (auto simp: convert_audio_to_wav_def Let_def split: prod.splits run_result.splits option.splits)

lemma transcribe_not_discovery:
  "fst (transcribe_audio ev eng audio language w) \<noteq> Inl Whisper_executable_not_found"
proof (cases "convert_audio_to_wav ev audio w")
  case (Pair r w1)
  show ?thesis
  proof (cases r)
    case (Inl e)
    with Pair convert_not_discovery [of ev audio w] show ?thesis
      by (simp add: transcribe_audio_def)
  next
    case (Inr wav)
    with Pair run_whisper_not_discovery [of ev eng wav language w1] show ?thesis
      by (cases "run_whisper ev eng wav language w1") (simp add: transcribe_audio_def)
  qed
qed

text \<open>
  Claim C8.  \<open>_find_whisper_executable\<close> returns the first existing path among, in
  this order, \<open>main.exe\<close> in the models directory, \<open>main.exe\<close> in its \<open>whisper.cpp\<close>
  subdirectory, and \<open>main.exe\<close> in the bundled-resource location.  An engine that was
  constructed holds that path, which existed in the file system it was constructed in;
  when none of the places exists the construction fails, and the failure for a missing
  executable comes from the construction only: \<open>transcribe_audio\<close> never raises it.
\<close>

theorem engine_discovery:
  "find_whisper_executable sys mdir w = find (exists w) (whisper_candidates sys mdir) \<and>
   (TranscriptionEngine_init sys name w = Inr eng \<longrightarrow>
      models_dir eng = os_join (base_dir sys) (u ''models'') \<and>
      find (exists w) (whisper_candidates sys (models_dir eng)) = Some (whisper_exe eng) \<and>
      exists w (whisper_exe eng)) \<and>
   (list_all (\<lambda>p. \<not> exists w p) (whisper_candidates sys (os_join (base_dir sys) (u ''models''))) \<longrightarrow>
      (\<exists>e. TranscriptionEngine_init sys name w = Inl e)) \<and>
   (TranscriptionEngine_init sys name w = Inl Whisper_executable_not_found \<longrightarrow>
      list_all (\<lambda>p. \<not> exists w p) (whisper_candidates sys (os_join (base_dir sys) (u ''models'')))) \<and>
   fst (transcribe_audio ev eng' audio_path language w') \<noteq> Inl Whisper_executable_not_found"
proof -
  let ?mdir = "os_join (base_dir sys) (u ''models'')"
  have a: "models_dir eng = ?mdir \<and>
      find (exists w) (whisper_candidates sys (models_dir eng)) = Some (whisper_exe eng) \<and>
      exists w (whisper_exe eng)"
    if "TranscriptionEngine_init sys name w = Inr eng"
  proof -
    from that have m: "models_dir eng = ?mdir"
      and f: "find_whisper_executable sys ?mdir w = Some (whisper_exe eng)"
      by (auto simp: TranscriptionEngine_init_def Let_def split: if_splits option.splits)
    from f have "find (exists w) (whisper_candidates sys ?mdir) = Some (whisper_exe eng)"
      by (simp add: find_whisper_executable_find)
    moreover from this have "exists w (whisper_exe eng)"
      by (auto simp: find_Some_iff)
    ultimately show ?thesis using m by simp
  qed
  have none: "find (exists w) (whisper_candidates sys ?mdir) = None \<longleftrightarrow>
      list_all (\<lambda>p. \<not> exists w p) (whisper_candidates sys ?mdir)"
    by (auto simp: find_None_iff list_all_iff)
  have b: "\<exists>e. TranscriptionEngine_init sys name w = Inl e"
    if "list_all (\<lambda>p. \<not> exists w p) (whisper_candidates sys ?mdir)"
    using that none
    by (simp add: TranscriptionEngine_init_def Let_def find_whisper_executable_find)
  have c: "list_all (\<lambda>p. \<not> exists w p) (whisper_candidates sys ?mdir)"
    if "TranscriptionEngine_init sys name w = Inl Whisper_executable_not_found"
    using that none
    by (auto simp: TranscriptionEngine_init_def Let_def find_whisper_executable_find
             split: if_splits option.splits)
  from a b c show ?thesis
    using find_whisper_executable_find transcribe_not_discovery by blast
qed

lemmas engine_defs = dev_sys_def app_models_def small_model_def built_exe_def installed_world_def
  model_only_world_def small_engine_def

lemma init_installed: "TranscriptionEngine_init dev_sys (u ''small'') installed_world = Inr small_engine"
  by (simp add: TranscriptionEngine_init_def find_whisper_executable_def base_dir_def exists_def
        engine_defs path_defs u_def)

lemma init_model_only:
  "TranscriptionEngine_init dev_sys (u ''small'') model_only_world = Inl Whisper_executable_not_found"
  by (simp add: TranscriptionEngine_init_def find_whisper_executable_def base_dir_def exists_def
        engine_defs path_defs u_def)

theorem engine_discovery_witness:
  "TranscriptionEngine_init dev_sys (u ''small'') installed_world = Inr small_engine \<and>
   whisper_candidates dev_sys (models_dir small_engine) = [os_join app_models (u ''main.exe''), built_exe] \<and>
   \<not> exists installed_world (os_join app_models (u ''main.exe'')) \<and>
   exists installed_world (whisper_exe small_engine) \<and>
   TranscriptionEngine_init dev_sys (u ''small'') model_only_world = Inl Whisper_executable_not_found \<and>
   list_all (\<lambda>p. \<not> exists model_only_world p)
     (whisper_candidates dev_sys (os_join (base_dir dev_sys) (u ''models'')))"
proof -
  have c: "whisper_candidates dev_sys (models_dir small_engine) =
      [os_join app_models (u ''main.exe''), built_exe]"
    by (simp add: whisper_candidates_def engine_defs)
  have n: "\<not> exists installed_world (os_join app_models (u ''main.exe''))"
    by (simp add: exists_def engine_defs path_defs u_def)
  from engine_discovery [of dev_sys "models_dir small_engine" installed_world "u ''small''"
      small_engine "example_env failing_whisper" small_engine interview_mp3 "u ''auto''"
      installed_world] init_installed
  have "exists installed_world (whisper_exe small_engine)" by simp
  moreover
  from engine_discovery [of dev_sys "models_dir small_engine" model_only_world "u ''small''"
      small_engine "example_env failing_whisper" small_engine interview_mp3 "u ''auto''"
      installed_world] init_model_only
  have "list_all (\<lambda>p. \<not> exists model_only_world p)
     (whisper_candidates dev_sys (os_join (base_dir dev_sys) (u ''models'')))" by simp
  ultimately show ?thesis using init_installed init_model_only c n by simp
qed


section \<open>The temporary WAV file\<close>

lemma exists_cleanup_wav:
  "exists (cleanup_wav wav w) wav \<longleftrightarrow> exists w wav \<and> wav \<in> locked w"
  by (auto simp: cleanup_wav_def remove_best_effort_def os_remove_def exists_def)

lemma files_cleanup_wav:
  "p \<noteq> wav \<Longrightarrow> files (cleanup_wav wav w) p = files w p"
  by (auto simp: cleanup_wav_def remove_best_effort_def os_remove_def exists_def)

lemma locked_cleanup_wav [simp]: "locked (cleanup_wav wav w) = locked w"
  by (auto simp: cleanup_wav_def remove_best_effort_def os_remove_def)

lemma transcribe_audio_converted:
  "convert_audio_to_wav ev audio w = (Inr wav, w1) \<Longrightarrow>
   transcribe_audio ev eng audio language w =
     (fst (run_whisper ev eng wav language w1),
      cleanup_wav wav (snd (run_whisper ev eng wav language w1)))"
  by (simp add: transcribe_audio_def split: prod.splits)

text \<open>
  Claim C6.  When the conversion has produced the temporary WAV file,
  \<open>transcribe_audio\<close> returns or raises exactly what the engine run and the parser
  return or raise (a normal return, the engine's non-zero exit, a parse failure), and on
  each of these paths it has removed the WAV file: afterwards the file exists only if
  it still existed and \<open>os.remove\<close> failed on it, and that failure is not raised to the
  caller.
\<close>

theorem wav_cleanup:
  assumes "convert_audio_to_wav ev audio_path w = (Inr wav_path, w1)"
  shows "fst (transcribe_audio ev eng audio_path language w) =
           fst (run_whisper ev eng wav_path language w1) \<and>
         snd (transcribe_audio ev eng audio_path language w) =
           cleanup_wav wav_path (snd (run_whisper ev eng wav_path language w1)) \<and>
         (exists (snd (transcribe_audio ev eng audio_path language w)) wav_path \<longleftrightarrow>
            exists (snd (run_whisper ev eng wav_path language w1)) wav_path \<and>
            wav_path \<in> locked (snd (run_whisper ev eng wav_path language w1))) \<and>
         (wav_path \<notin> locked (snd (run_whisper ev eng wav_path language w1)) \<longrightarrow>
            \<not> exists (snd (transcribe_audio ev eng audio_path language w)) wav_path)"
  using assms by (simp add: transcribe_audio_converted exists_cleanup_wav)

lemmas env_defs = example_env_def example_ffmpeg_def failing_whisper_def writing_whisper_def
  ffmpeg_cmd_def whisper_cmd_def
  interview_mp3_def empty_world_def locked_world_def

lemma convert_example:
  "convert_audio_to_wav (example_env wh) interview_mp3 w =
     (Inr example_wav, write_file example_wav Not_json w)"
  by (simp add: Let_def convert_audio_to_wav_def env_defs example_wav_def path_defs u_def)

lemma run_whisper_failing:
  "run_whisper (example_env failing_whisper) small_engine example_wav (u ''auto'') w =
     (Inl (Whisper_transcription_failed (u ''failed to load model'')), w)"
  by (simp add: Let_def run_whisper_def env_defs)

lemma run_whisper_hello:
  "fst (run_whisper (example_env (writing_whisper hello_transcript)) small_engine example_wav
         (u ''auto'') (write_file example_wav Not_json empty_world)) =
     Inr [caption_of_token hello_token]"
  by (simp add: Let_def run_whisper_def env_defs parse_defs path_defs str_defs example_defs
        caption_of_token_def token_offsets_def)

lemma run_whisper_empty:
  "fst (run_whisper (example_env (writing_whisper empty_transcript)) small_engine example_wav
         (u ''auto'') (write_file example_wav Not_json empty_world)) =
     Inl (Error_processing_transcription
            (No_captions_extracted example_debug [u ''systeminfo'', u ''transcription'']))"
  by (simp add: Let_def run_whisper_def env_defs parse_defs path_defs str_defs example_defs
        empty_transcript_def)

lemma locked_json_dump [simp]: "locked (snd (json_dump dmp p v w)) = locked w"
  by (cases "dmp p v w") (simp_all add: json_dump_def write_file_def)

lemma locked_json_dump_pair: "json_dump dmp p v w = (r, w') \<Longrightarrow> locked w' = locked w"
  using locked_json_dump [of dmp p v w] by simp

lemma locked_parse_whisper_output [simp]:
  "locked (snd (parse_whisper_output ios dmp wav w)) = locked w"
  by (auto simp: parse_whisper_output_def remove_best_effort_def os_remove_def
           split: option.splits content.splits sum.splits prod.splits
           dest: locked_json_dump_pair)

lemma run_whisper_locked [simp]:
  "locked (snd (run_whisper (example_env (writing_whisper d)) small_engine example_wav
         (u ''auto'') (write_file example_wav Not_json empty_world))) = {}"
  by (simp add: run_whisper_def example_env_def writing_whisper_def write_file_def
        empty_world_def)

theorem wav_cleanup_witness:
  "convert_audio_to_wav (example_env (writing_whisper hello_transcript)) interview_mp3 empty_world =
     (Inr example_wav, write_file example_wav Not_json empty_world) \<and>
   exists (write_file example_wav Not_json empty_world) example_wav \<and>
   fst (transcribe_audio (example_env (writing_whisper hello_transcript)) small_engine
          interview_mp3 (u ''auto'') empty_world) = Inr [caption_of_token hello_token] \<and>
   \<not> exists (snd (transcribe_audio (example_env (writing_whisper hello_transcript)) small_engine
          interview_mp3 (u ''auto'') empty_world)) example_wav \<and>
   fst (transcribe_audio (example_env failing_whisper) small_engine
          interview_mp3 (u ''auto'') empty_world) =
     Inl (Whisper_transcription_failed (u ''failed to load model'')) \<and>
   \<not> exists (snd (transcribe_audio (example_env failing_whisper) small_engine
          interview_mp3 (u ''auto'') empty_world)) example_wav \<and>
   fst (transcribe_audio (example_env (writing_whisper empty_transcript)) small_engine
          interview_mp3 (u ''auto'') empty_world) =
     Inl (Error_processing_transcription
            (No_captions_extracted example_debug [u ''systeminfo'', u ''transcription''])) \<and>
   \<not> exists (snd (transcribe_audio (example_env (writing_whisper empty_transcript)) small_engine
          interview_mp3 (u ''auto'') empty_world)) example_wav \<and>
   fst (transcribe_audio (example_env failing_whisper) small_engine
          interview_mp3 (u ''auto'') locked_world) =
     Inl (Whisper_transcription_failed (u ''failed to load model'')) \<and>
   exists (snd (transcribe_audio (example_env failing_whisper) small_engine
          interview_mp3 (u ''auto'') locked_world)) example_wav"
proof -
  note c = convert_example
  have e: "exists (write_file example_wav Not_json empty_world) example_wav"
    by (simp add: exists_def write_file_def)
  from wav_cleanup [OF c [of "writing_whisper hello_transcript" empty_world], of small_engine "u ''auto''"]
  have 1: "fst (transcribe_audio (example_env (writing_whisper hello_transcript)) small_engine
          interview_mp3 (u ''auto'') empty_world) = Inr [caption_of_token hello_token] \<and>
   \<not> exists (snd (transcribe_audio (example_env (writing_whisper hello_transcript)) small_engine
          interview_mp3 (u ''auto'') empty_world)) example_wav"
    by (auto simp: run_whisper_hello)
  from wav_cleanup [OF c [of failing_whisper empty_world], of small_engine "u ''auto''"]
  have 2: "fst (transcribe_audio (example_env failing_whisper) small_engine
          interview_mp3 (u ''auto'') empty_world) =
     Inl (Whisper_transcription_failed (u ''failed to load model'')) \<and>
   \<not> exists (snd (transcribe_audio (example_env failing_whisper) small_engine
          interview_mp3 (u ''auto'') empty_world)) example_wav"
    by (auto simp: run_whisper_failing write_file_def empty_world_def)
  from wav_cleanup [OF c [of "writing_whisper empty_transcript" empty_world], of small_engine "u ''auto''"]
  have 3: "fst (transcribe_audio (example_env (writing_whisper empty_transcript)) small_engine
          interview_mp3 (u ''auto'') empty_world) =
     Inl (Error_processing_transcription
            (No_captions_extracted example_debug [u ''systeminfo'', u ''transcription''])) \<and>
   \<not> exists (snd (transcribe_audio (example_env (writing_whisper empty_transcript)) small_engine
          interview_mp3 (u ''auto'') empty_world)) example_wav"
    by (auto simp: run_whisper_empty)
  from wav_cleanup [OF c [of failing_whisper locked_world], of small_engine "u ''auto''"]
  have 4: "fst (transcribe_audio (example_env failing_whisper) small_engine
          interview_mp3 (u ''auto'') locked_world) =
     Inl (Whisper_transcription_failed (u ''failed to load model'')) \<and>
   exists (snd (transcribe_audio (example_env failing_whisper) small_engine
          interview_mp3 (u ''auto'') locked_world)) example_wav"
    by (auto simp: run_whisper_failing write_file_def locked_world_def exists_def)
  from c e 1 2 3 4 show ?thesis by simp
qed


section \<open>The batch\<close>

lemma try_transcription_failed:
  assumes "transcribe_audio ev eng p language (fs b) = (Inl e, w')"
  shows "try_process_file ev eng language n idx p b =
           (Some e, b\<lparr>fs := w', emitted := emitted b @ start_events idx n p\<rparr>)"
  using assms by (simp add: try_process_file_def emit_def start_events_def)

lemma try_no_output_path:
  assumes "transcribe_audio ev eng p language (fs b) = (Inr captions, w')"
    and "with_suffix p (u ''.json'') = None"
  shows "try_process_file ev eng language n idx p b =
           (Some ValueError, b\<lparr>fs := w', emitted := emitted b @ start_events idx n p\<rparr>)"
  using assms by (simp add: try_process_file_def emit_def start_events_def)

lemma try_save_failed:
  assumes "transcribe_audio ev eng p language (fs b) = (Inr captions, w')"
    and "with_suffix p (u ''.json'') = Some output_path"
    and "json_dump (dump_outcome ev) output_path (JArr (map caption_json captions)) w' =
           (Some e, w'')"
  shows "try_process_file ev eng language n idx p b =
           (Some e, b\<lparr>fs := w'',
                      emitted := emitted b @ start_events idx n p @
                                 [Progress (Saving_captions_to (basename output_path))]\<rparr>)"
  using assms by (simp add: try_process_file_def emit_def start_events_def)

lemma try_saved:
  assumes "transcribe_audio ev eng p language (fs b) = (Inr captions, w')"
    and "with_suffix p (u ''.json'') = Some output_path"
    and "json_dump (dump_outcome ev) output_path (JArr (map caption_json captions)) w' =
           (None, w'')"
  shows "try_process_file ev eng language n idx p b =
           (None, b\<lparr>fs := w'',
                    emitted := emitted b @ start_events idx n p @
                               [Progress (Saving_captions_to (basename output_path)),
                                Progress (Generated_segments (length captions)),
                                Progress (Saved_to output_path),
                                File_completed idx n (basename p)],
                    successful_files := successful_files b @ [basename p]\<rparr>)"
  using assms by (simp add: try_process_file_def emit_def start_events_def)

lemma process_file_raised:
  assumes "try_process_file ev eng language n idx p b = (Some e, b')"
  shows "process_file ev eng language n idx p b =
           b'\<lparr>emitted := emitted b' @ [Progress (Error_processing_file (basename p) e)],
              failed_files := failed_files b' @ [basename p]\<rparr>"
  using assms by (simp add: process_file_def record_failure_def emit_def)

lemma process_file_returned:
  assumes "try_process_file ev eng language n idx p b = (None, b')"
  shows "process_file ev eng language n idx p b = b'"
  using assms by (simp add: process_file_def)

lemma try_process_file_cases:
  obtains (transcription) e w' where "transcribe_audio ev eng p language (fs b) = (Inl e, w')"
  | (no_path) captions w' where "transcribe_audio ev eng p language (fs b) = (Inr captions, w')"
      and "with_suffix p (u ''.json'') = None"
  | (save) captions w' output_path e w'' where
      "transcribe_audio ev eng p language (fs b) = (Inr captions, w')"
      and "with_suffix p (u ''.json'') = Some output_path"
      and "json_dump (dump_outcome ev) output_path (JArr (map caption_json captions)) w' =
             (Some e, w'')"
  | (saved) captions w' output_path w'' where
      "transcribe_audio ev eng p language (fs b) = (Inr captions, w')"
      and "with_suffix p (u ''.json'') = Some output_path"
      and "json_dump (dump_outcome ev) output_path (JArr (map caption_json captions)) w' =
             (None, w'')"
proof (cases "transcribe_audio ev eng p language (fs b)")
  case (Pair r w')
  show ?thesis
  proof (cases r)
    case (Inl e)
    with Pair transcription show ?thesis by simp
  next
    case (Inr captions)
    show ?thesis
    proof (cases "with_suffix p (u ''.json'')")
      case None
      with Pair Inr no_path show ?thesis by simp
    next
      case (Some output_path)
      obtain r' w'' where
        j: "json_dump (dump_outcome ev) output_path (JArr (map caption_json captions)) w' = (r', w'')"
        by (cases "json_dump (dump_outcome ev) output_path (JArr (map caption_json captions)) w'")
      show ?thesis
      proof (cases r')
        case None
        with Pair Inr Some j saved show ?thesis by simp
      next
        case (Some e)
        with Pair Inr \<open>with_suffix p (u ''.json'') = Some output_path\<close> j save show ?thesis
          by simp
      qed
    qed
  qed
qed

lemma process_file_lists:
  "(successful_files (process_file ev eng language n idx p b) = successful_files b @ [basename p] \<and>
    failed_files (process_file ev eng language n idx p b) = failed_files b) \<or>
   (successful_files (process_file ev eng language n idx p b) = successful_files b \<and>
    failed_files (process_file ev eng language n idx p b) = failed_files b @ [basename p])"
proof (cases rule: try_process_file_cases [of ev eng p language b])
  case (transcription e w')
  then show ?thesis
    by (simp add: process_file_raised [OF try_transcription_failed])
next
  case (no_path captions w')
  then show ?thesis
    by (simp add: process_file_raised [OF try_no_output_path])
next
  case (save captions w' output_path e w'')
  then show ?thesis
    by (simp add: process_file_raised [OF try_save_failed])
next
  case (saved captions w' output_path w'')
  then show ?thesis
    by (simp add: process_file_returned [OF try_saved])
qed

lemma filter_is_start_start_events [simp]:
  "filter is_start (start_events idx n p) = [Progress (Processing_file idx n)]"
  by (simp add: start_events_def)

lemma process_file_starts:
  "filter is_start (emitted (process_file ev eng language n idx p b)) =
   filter is_start (emitted b) @ [Progress (Processing_file idx n)]"
proof (cases rule: try_process_file_cases [of ev eng p language b])
  case (transcription e w')
  then show ?thesis
    by (simp add: process_file_raised [OF try_transcription_failed])
next
  case (no_path captions w')
  then show ?thesis
    by (simp add: process_file_raised [OF try_no_output_path])
next
  case (save captions w' output_path e w'')
  then show ?thesis
    by (simp add: process_file_raised [OF try_save_failed])
next
  case (saved captions w' output_path w'')
  then show ?thesis
    by (simp add: process_file_returned [OF try_saved])
qed

lemma process_files_mset:
  "mset (successful_files (process_files ev eng language n idx ps b)) +
   mset (failed_files (process_files ev eng language n idx ps b)) =
   mset (successful_files b) + mset (failed_files b) + mset (map basename ps)"
proof (induction ps arbitrary: idx b)
  case Nil
  then show ?case by simp
next
  case (Cons p ps)
  from process_file_lists [of ev eng language n idx p b]
  have "mset (successful_files (process_file ev eng language n idx p b)) +
        mset (failed_files (process_file ev eng language n idx p b)) =
        mset (successful_files b) + mset (failed_files b) + {#basename p#}"
    by auto
  with Cons.IH [of "Suc idx" "process_file ev eng language n idx p b"] show ?case
    by simp
qed

lemma process_files_starts:
  "filter is_start (emitted (process_files ev eng language n idx ps b)) =
   filter is_start (emitted b) @
   map (\<lambda>i. Progress (Processing_file i n)) [idx..<idx + length ps]"
proof (induction ps arbitrary: idx b)
  case Nil
  then show ?case by simp
next
  case (Cons p ps)
  have "[idx..<idx + length (p # ps)] = idx # [Suc idx..<Suc idx + length ps]"
    by (simp add: upt_rec)
  with Cons.IH [of "Suc idx" "process_file ev eng language n idx p b"] show ?case
    by (simp add: process_file_starts)
qed

lemma process_files_append:
  "process_files ev eng language n idx (ps @ qs) b =
   process_files ev eng language n (idx + length ps) qs
     (process_files ev eng language n idx ps b)"
  by (induction ps arbitrary: idx b) auto

lemma final_summary_lists [simp]:
  "successful_files (final_summary n b) = successful_files b"
  "failed_files (final_summary n b) = failed_files b"
  "fs (final_summary n b) = fs b"
  by (simp_all add: final_summary_def emit_def Let_def)

lemma filter_is_start_map [simp]:
  "filter is_start (map (\<lambda>x. Progress (Succeeded_file x)) xs) = []"
  "filter is_start (map (\<lambda>x. Progress (Failed_file x)) xs) = []"
  by (induction xs) auto

lemma final_summary_starts [simp]:
  "filter is_start (emitted (final_summary n b)) = filter is_start (emitted b)"
  by (simp add: final_summary_def emit_def Let_def)

lemma final_summary_last:
  "last (emitted (final_summary n b)) =
   Finished (failed_files b = []) (Processed_successfully (length (successful_files b)) n)"
  by (simp add: final_summary_def emit_def Let_def)

lemma run_constructed:
  "TranscriptionEngine_init sys name w = Inr eng \<Longrightarrow>
   run ev sys audio_paths name language w =
     final_summary (length audio_paths)
       (process_files ev eng language (length audio_paths) 1 audio_paths (initial_batch w))"
  by (simp add: run_def emit_def initial_batch_def Let_def)

lemma run_not_constructed:
  "TranscriptionEngine_init sys name w = Inl e \<Longrightarrow>
   run ev sys audio_paths name language w =
     \<lparr>fs = w,
      emitted = [Progress Initializing_engine, Progress (Error_during_batch e),
                 Finished False (Batch_error e)],
      successful_files = [], failed_files = []\<rparr>"
  by (simp add: run_def emit_def Let_def)

lemma run_split:
  assumes "TranscriptionEngine_init sys name w = Inr eng" and "k < length audio_paths"
  shows "batch_after ev eng language audio_paths w (Suc k) =
           process_file ev eng language (length audio_paths) (Suc k) (audio_paths ! k)
             (batch_after ev eng language audio_paths w k)"
    and "run ev sys audio_paths name language w =
           final_summary (length audio_paths)
             (process_files ev eng language (length audio_paths) (Suc (Suc k))
                (drop (Suc k) audio_paths) (batch_after ev eng language audio_paths w (Suc k)))"
proof -
  let ?n = "length audio_paths"
  from assms(2) have t: "take (Suc k) audio_paths = take k audio_paths @ [audio_paths ! k]"
    by (simp add: take_Suc_conv_app_nth)
  from assms(2) show "batch_after ev eng language audio_paths w (Suc k) =
           process_file ev eng language ?n (Suc k) (audio_paths ! k)
             (batch_after ev eng language audio_paths w k)"
    by (simp add: batch_after_def t process_files_append)
  have "audio_paths = take (Suc k) audio_paths @ drop (Suc k) audio_paths" by simp
  then have "process_files ev eng language ?n 1 audio_paths (initial_batch w) =
        process_files ev eng language ?n (1 + length (take (Suc k) audio_paths))
          (drop (Suc k) audio_paths) (batch_after ev eng language audio_paths w (Suc k))"
    unfolding batch_after_def by (metis process_files_append)
  with assms show "run ev sys audio_paths name language w =
           final_summary ?n
             (process_files ev eng language ?n (Suc (Suc k))
                (drop (Suc k) audio_paths) (batch_after ev eng language audio_paths w (Suc k)))"
    by (simp add: run_constructed min_def)
qed

text \<open>
  Claim C2, as amended.  The claim holds of a batch whose engine was constructed; when
  the construction fails (a missing model, a missing executable) no request is started
  and the flag is false with an empty failure list: see the counterexample.  Once the
  engine is constructed, the batch starts every one of the \<open>N\<close> requests, in order (the
  progress line "Processing file i of N" is emitted for \<open>i = 1, ..., N\<close> in this
  order), whatever fails on the way, and after the request at position \<open>k\<close> it goes on
  with the requests that follow.  A request whose \<open>try\<close> block raises an error \<open>e\<close>
  (from \<open>transcribe_audio\<close>, from the computation of the output path, or from opening
  and writing the output file) emits the error-detail line, which holds \<open>e\<close>, as its
  last line and is appended to the failure list, the success list unchanged; a request
  whose captions are saved is appended to the success list.  At the end the reported
  flag is true exactly when the failure list is empty, and the success and failure
  lists together hold exactly the base names of the \<open>N\<close> input files.
\<close>

theorem batch_isolation:
  assumes "TranscriptionEngine_init sys name w = Inr eng"
  shows "filter is_start (emitted (run ev sys audio_paths name language w)) =
           map (\<lambda>i. Progress (Processing_file i (length audio_paths)))
             [1..<Suc (length audio_paths)] \<and>
         mset (successful_files (run ev sys audio_paths name language w)) +
         mset (failed_files (run ev sys audio_paths name language w)) =
           mset (map basename audio_paths) \<and>
         last (emitted (run ev sys audio_paths name language w)) =
           Finished (failed_files (run ev sys audio_paths name language w) = [])
             (Processed_successfully
                (length (successful_files (run ev sys audio_paths name language w)))
                (length audio_paths)) \<and>
         (\<forall>k. k < length audio_paths \<longrightarrow>
            run ev sys audio_paths name language w =
              final_summary (length audio_paths)
                (process_files ev eng language (length audio_paths) (Suc (Suc k))
                   (drop (Suc k) audio_paths)
                   (batch_after ev eng language audio_paths w (Suc k)))) \<and>
         (\<forall>k e b'. k < length audio_paths \<and>
            try_process_file ev eng language (length audio_paths) (Suc k) (audio_paths ! k)
              (batch_after ev eng language audio_paths w k) = (Some e, b') \<longrightarrow>
            batch_after ev eng language audio_paths w (Suc k) =
              b'\<lparr>emitted := emitted b' @
                   [Progress (Error_processing_file (basename (audio_paths ! k)) e)],
                 failed_files := failed_files (batch_after ev eng language audio_paths w k) @
                   [basename (audio_paths ! k)]\<rparr> \<and>
            successful_files (batch_after ev eng language audio_paths w (Suc k)) =
              successful_files (batch_after ev eng language audio_paths w k)) \<and>
         (\<forall>k e w'. k < length audio_paths \<and>
            transcribe_audio ev eng (audio_paths ! k) language
              (fs (batch_after ev eng language audio_paths w k)) = (Inl e, w') \<longrightarrow>
            batch_after ev eng language audio_paths w (Suc k) =
              (batch_after ev eng language audio_paths w k)
                \<lparr>fs := w',
                 emitted := emitted (batch_after ev eng language audio_paths w k) @
                   start_events (Suc k) (length audio_paths) (audio_paths ! k) @
                   [Progress (Error_processing_file (basename (audio_paths ! k)) e)],
                 failed_files := failed_files (batch_after ev eng language audio_paths w k) @
                   [basename (audio_paths ! k)]\<rparr>) \<and>
         (\<forall>k captions w'. k < length audio_paths \<and>
            transcribe_audio ev eng (audio_paths ! k) language
              (fs (batch_after ev eng language audio_paths w k)) = (Inr captions, w') \<and>
            with_suffix (audio_paths ! k) (u ''.json'') = None \<longrightarrow>
            batch_after ev eng language audio_paths w (Suc k) =
              (batch_after ev eng language audio_paths w k)
                \<lparr>fs := w',
                 emitted := emitted (batch_after ev eng language audio_paths w k) @
                   start_events (Suc k) (length audio_paths) (audio_paths ! k) @
                   [Progress (Error_processing_file (basename (audio_paths ! k)) ValueError)],
                 failed_files := failed_files (batch_after ev eng language audio_paths w k) @
                   [basename (audio_paths ! k)]\<rparr>) \<and>
         (\<forall>k captions w' output_path e w''. k < length audio_paths \<and>
            transcribe_audio ev eng (audio_paths ! k) language
              (fs (batch_after ev eng language audio_paths w k)) = (Inr captions, w') \<and>
            with_suffix (audio_paths ! k) (u ''.json'') = Some output_path \<and>
            json_dump (dump_outcome ev) output_path (JArr (map caption_json captions)) w' =
              (Some e, w'') \<longrightarrow>
            batch_after ev eng language audio_paths w (Suc k) =
              (batch_after ev eng language audio_paths w k)
                \<lparr>fs := w'',
                 emitted := emitted (batch_after ev eng language audio_paths w k) @
                   start_events (Suc k) (length audio_paths) (audio_paths ! k) @
                   [Progress (Saving_captions_to (basename output_path)),
                    Progress (Error_processing_file (basename (audio_paths ! k)) e)],
                 failed_files := failed_files (batch_after ev eng language audio_paths w k) @
                   [basename (audio_paths ! k)]\<rparr>) \<and>
         (\<forall>k captions w' output_path w''. k < length audio_paths \<and>
            transcribe_audio ev eng (audio_paths ! k) language
              (fs (batch_after ev eng language audio_paths w k)) = (Inr captions, w') \<and>
            with_suffix (audio_paths ! k) (u ''.json'') = Some output_path \<and>
            json_dump (dump_outcome ev) output_path (JArr (map caption_json captions)) w' =
              (None, w'') \<longrightarrow>
            batch_after ev eng language audio_paths w (Suc k) =
              (batch_after ev eng language audio_paths w k)
                \<lparr>fs := w'',
                 emitted := emitted (batch_after ev eng language audio_paths w k) @
                   start_events (Suc k) (length audio_paths) (audio_paths ! k) @
                   [Progress (Saving_captions_to (basename output_path)),
                    Progress (Generated_segments (length captions)),
                    Progress (Saved_to output_path),
                    File_completed (Suc k) (length audio_paths) (basename (audio_paths ! k))],
                 successful_files :=
                   successful_files (batch_after ev eng language audio_paths w k) @
                   [basename (audio_paths ! k)]\<rparr>)"
proof -
  let ?n = "length audio_paths"
  let ?B = "batch_after ev eng language audio_paths w"
  note r = run_constructed [OF assms, of ev audio_paths language]
  have 1: "filter is_start (emitted (run ev sys audio_paths name language w)) =
           map (\<lambda>i. Progress (Processing_file i ?n)) [1..<Suc ?n]"
    by (simp add: r process_files_starts initial_batch_def)
  have 2: "mset (successful_files (run ev sys audio_paths name language w)) +
         mset (failed_files (run ev sys audio_paths name language w)) =
           mset (map basename audio_paths)"
    by (simp add: r process_files_mset initial_batch_def)
  have 3: "last (emitted (run ev sys audio_paths name language w)) =
           Finished (failed_files (run ev sys audio_paths name language w) = [])
             (Processed_successfully
                (length (successful_files (run ev sys audio_paths name language w))) ?n)"
    by (simp add: r final_summary_last)
  have 4: "\<forall>k. k < ?n \<longrightarrow>
            run ev sys audio_paths name language w =
              final_summary ?n
                (process_files ev eng language ?n (Suc (Suc k))
                   (drop (Suc k) audio_paths) (?B (Suc k)))"
    by (intro allI impI) (rule run_split(2) [OF assms])
  have s: "?B (Suc k) = process_file ev eng language ?n (Suc k) (audio_paths ! k) (?B k)"
    if "k < ?n" for k
    using run_split(1) [OF assms that, of ev language] .
  have 5: "\<forall>k e b'. k < ?n \<and>
            try_process_file ev eng language ?n (Suc k) (audio_paths ! k) (?B k) = (Some e, b') \<longrightarrow>
            ?B (Suc k) =
              b'\<lparr>emitted := emitted b' @
                   [Progress (Error_processing_file (basename (audio_paths ! k)) e)],
                 failed_files := failed_files (?B k) @ [basename (audio_paths ! k)]\<rparr> \<and>
            successful_files (?B (Suc k)) = successful_files (?B k)"
  proof (intro allI impI, elim conjE)
    fix k e b'
    assume k: "k < ?n"
      and t: "try_process_file ev eng language ?n (Suc k) (audio_paths ! k) (?B k) = (Some e, b')"
    have "failed_files b' = failed_files (?B k) \<and> successful_files b' = successful_files (?B k)"
    proof (cases rule: try_process_file_cases [of ev eng "audio_paths ! k" language "?B k"])
      case (transcription e w')
      from try_transcription_failed [OF this, of ?n "Suc k"] t show ?thesis by auto
    next
      case (no_path captions w')
      from try_no_output_path [OF this, of ?n "Suc k"] t show ?thesis by auto
    next
      case (save captions w' output_path e w'')
      from try_save_failed [OF this, of ?n "Suc k"] t show ?thesis by auto
    next
      case (saved captions w' output_path w'')
      from try_saved [OF this, of ?n "Suc k"] t show ?thesis by simp
    qed
    with s [OF k] process_file_raised [OF t]
    show "?B (Suc k) =
              b'\<lparr>emitted := emitted b' @
                   [Progress (Error_processing_file (basename (audio_paths ! k)) e)],
                 failed_files := failed_files (?B k) @ [basename (audio_paths ! k)]\<rparr> \<and>
            successful_files (?B (Suc k)) = successful_files (?B k)"
      by simp
  qed
  have 6: "\<forall>k e w'. k < ?n \<and>
            transcribe_audio ev eng (audio_paths ! k) language (fs (?B k)) = (Inl e, w') \<longrightarrow>
            ?B (Suc k) =
              (?B k)\<lparr>fs := w',
                 emitted := emitted (?B k) @ start_events (Suc k) ?n (audio_paths ! k) @
                   [Progress (Error_processing_file (basename (audio_paths ! k)) e)],
                 failed_files := failed_files (?B k) @ [basename (audio_paths ! k)]\<rparr>"
  proof (intro allI impI, elim conjE)
    fix k e w'
    assume k: "k < ?n"
      and t: "transcribe_audio ev eng (audio_paths ! k) language (fs (?B k)) = (Inl e, w')"
    from s [OF k] process_file_raised [OF try_transcription_failed [OF t], of ?n "Suc k"]
    show "?B (Suc k) =
              (?B k)\<lparr>fs := w',
                 emitted := emitted (?B k) @ start_events (Suc k) ?n (audio_paths ! k) @
                   [Progress (Error_processing_file (basename (audio_paths ! k)) e)],
                 failed_files := failed_files (?B k) @ [basename (audio_paths ! k)]\<rparr>"
      by simp
  qed
  have 7: "\<forall>k captions w'. k < ?n \<and>
            transcribe_audio ev eng (audio_paths ! k) language (fs (?B k)) = (Inr captions, w') \<and>
            with_suffix (audio_paths ! k) (u ''.json'') = None \<longrightarrow>
            ?B (Suc k) =
              (?B k)\<lparr>fs := w',
                 emitted := emitted (?B k) @ start_events (Suc k) ?n (audio_paths ! k) @
                   [Progress (Error_processing_file (basename (audio_paths ! k)) ValueError)],
                 failed_files := failed_files (?B k) @ [basename (audio_paths ! k)]\<rparr>"
  proof (intro allI impI, elim conjE)
    fix k captions w'
    assume k: "k < ?n"
      and t: "transcribe_audio ev eng (audio_paths ! k) language (fs (?B k)) = (Inr captions, w')"
      and p: "with_suffix (audio_paths ! k) (u ''.json'') = None"
    from s [OF k] process_file_raised [OF try_no_output_path [OF t p], of ?n "Suc k"]
    show "?B (Suc k) =
              (?B k)\<lparr>fs := w',
                 emitted := emitted (?B k) @ start_events (Suc k) ?n (audio_paths ! k) @
                   [Progress (Error_processing_file (basename (audio_paths ! k)) ValueError)],
                 failed_files := failed_files (?B k) @ [basename (audio_paths ! k)]\<rparr>"
      by simp
  qed
  have 8: "\<forall>k captions w' output_path e w''. k < ?n \<and>
            transcribe_audio ev eng (audio_paths ! k) language (fs (?B k)) = (Inr captions, w') \<and>
            with_suffix (audio_paths ! k) (u ''.json'') = Some output_path \<and>
            json_dump (dump_outcome ev) output_path (JArr (map caption_json captions)) w' =
              (Some e, w'') \<longrightarrow>
            ?B (Suc k) =
              (?B k)\<lparr>fs := w'',
                 emitted := emitted (?B k) @ start_events (Suc k) ?n (audio_paths ! k) @
                   [Progress (Saving_captions_to (basename output_path)),
                    Progress (Error_processing_file (basename (audio_paths ! k)) e)],
                 failed_files := failed_files (?B k) @ [basename (audio_paths ! k)]\<rparr>"
  proof (intro allI impI, elim conjE)
    fix k captions w' output_path e w''
    assume k: "k < ?n"
      and t: "transcribe_audio ev eng (audio_paths ! k) language (fs (?B k)) = (Inr captions, w')"
      and p: "with_suffix (audio_paths ! k) (u ''.json'') = Some output_path"
      and d: "json_dump (dump_outcome ev) output_path (JArr (map caption_json captions)) w' =
              (Some e, w'')"
    from s [OF k] process_file_raised [OF try_save_failed [OF t p d], of ?n "Suc k"]
    show "?B (Suc k) =
              (?B k)\<lparr>fs := w'',
                 emitted := emitted (?B k) @ start_events (Suc k) ?n (audio_paths ! k) @
                   [Progress (Saving_captions_to (basename output_path)),
                    Progress (Error_processing_file (basename (audio_paths ! k)) e)],
                 failed_files := failed_files (?B k) @ [basename (audio_paths ! k)]\<rparr>"
      by simp
  qed
  have 9: "\<forall>k captions w' output_path w''. k < ?n \<and>
            transcribe_audio ev eng (audio_paths ! k) language (fs (?B k)) = (Inr captions, w') \<and>
            with_suffix (audio_paths ! k) (u ''.json'') = Some output_path \<and>
            json_dump (dump_outcome ev) output_path (JArr (map caption_json captions)) w' =
              (None, w'') \<longrightarrow>
            ?B (Suc k) =
              (?B k)\<lparr>fs := w'',
                 emitted := emitted (?B k) @ start_events (Suc k) ?n (audio_paths ! k) @
                   [Progress (Saving_captions_to (basename output_path)),
                    Progress (Generated_segments (length captions)),
                    Progress (Saved_to output_path),
                    File_completed (Suc k) ?n (basename (audio_paths ! k))],
                 successful_files := successful_files (?B k) @ [basename (audio_paths ! k)]\<rparr>"
  proof (intro allI impI, elim conjE)
    fix k captions w' output_path w''
    assume k: "k < ?n"
      and t: "transcribe_audio ev eng (audio_paths ! k) language (fs (?B k)) = (Inr captions, w')"
      and p: "with_suffix (audio_paths ! k) (u ''.json'') = Some output_path"
      and d: "json_dump (dump_outcome ev) output_path (JArr (map caption_json captions)) w' =
              (None, w'')"
    from s [OF k] process_file_returned [OF try_saved [OF t p d], of ?n "Suc k"]
    show "?B (Suc k) =
              (?B k)\<lparr>fs := w'',
                 emitted := emitted (?B k) @ start_events (Suc k) ?n (audio_paths ! k) @
                   [Progress (Saving_captions_to (basename output_path)),
                    Progress (Generated_segments (length captions)),
                    Progress (Saved_to output_path),
                    File_completed (Suc k) ?n (basename (audio_paths ! k))],
                 successful_files := successful_files (?B k) @ [basename (audio_paths ! k)]\<rparr>"
      by simp
  qed
  show ?thesis
    by (intro conjI 1 2 3 4 5 6 7 8 9)
qed


section \<open>Error propagation\<close>

lemma process_file_failed:
  assumes "fst (transcribe_audio ev eng p language (fs b)) = Inl e"
  shows "failed_files (process_file ev eng language n idx p b) = failed_files b @ [basename p]"
    and "successful_files (process_file ev eng language n idx p b) = successful_files b"
    and "last (emitted (process_file ev eng language n idx p b)) =
           Progress (Error_processing_file (basename p) e)"
proof -
  from assms obtain w' where "transcribe_audio ev eng p language (fs b) = (Inl e, w')"
    by (cases "transcribe_audio ev eng p language (fs b)") simp
  note r = process_file_raised [OF try_transcription_failed [OF this], of n idx]
  from r show "failed_files (process_file ev eng language n idx p b) = failed_files b @ [basename p]"
    by simp
  from r show "successful_files (process_file ev eng language n idx p b) = successful_files b"
    by simp
  from r show "last (emitted (process_file ev eng language n idx p b)) =
           Progress (Error_processing_file (basename p) e)"
    by simp
qed

lemma process_file_succeeded:
  assumes "fst (transcribe_audio ev eng p language (fs b)) = Inr captions"
    and "with_suffix p (u ''.json'') = Some output_path"
    and "dump_outcome ev output_path (JArr (map caption_json captions))
           (snd (transcribe_audio ev eng p language (fs b))) = Written"
  shows "failed_files (process_file ev eng language n idx p b) = failed_files b"
    and "successful_files (process_file ev eng language n idx p b) =
           successful_files b @ [basename p]"
    and "last (emitted (process_file ev eng language n idx p b)) =
           File_completed idx n (basename p)"
    and "files (fs (process_file ev eng language n idx p b)) output_path =
           Some (Json_text (JArr (map caption_json captions)))"
proof -
  from assms(1) have t: "transcribe_audio ev eng p language (fs b) =
      (Inr captions, snd (transcribe_audio ev eng p language (fs b)))"
    by (simp add: prod_eq_iff)
  from assms(3) have d: "json_dump (dump_outcome ev) output_path (JArr (map caption_json captions))
      (snd (transcribe_audio ev eng p language (fs b))) =
      (None, write_file output_path (Json_text (JArr (map caption_json captions)))
               (snd (transcribe_audio ev eng p language (fs b))))"
    by (simp add: json_dump_def)
  note r = process_file_returned [OF try_saved [OF t assms(2) d], of n idx]
  from r show "failed_files (process_file ev eng language n idx p b) = failed_files b"
    by simp
  from r show "successful_files (process_file ev eng language n idx p b) =
           successful_files b @ [basename p]"
    by simp
  from r show "last (emitted (process_file ev eng language n idx p b)) =
           File_completed idx n (basename p)"
    by simp
  from r show "files (fs (process_file ev eng language n idx p b)) output_path =
           Some (Json_text (JArr (map caption_json captions)))"
    by (simp add: write_file_def)
qed











section \<open>The batch on the examples\<close>

lemmas batch_defs = broken_mp3_def selective_whisper_def failing_ffmpeg_def no_ffmpeg_env_def
  exe_only_world_def

lemma convert_broken:
  "convert_audio_to_wav (example_env wh) broken_mp3 w =
     (Inr (os_join (u ''/tmp'') (u ''broken_16khz.wav'')),
      write_file (os_join (u ''/tmp'') (u ''broken_16khz.wav'')) Not_json w)"
  by (simp add: Let_def convert_audio_to_wav_def env_defs batch_defs path_defs u_def)

lemma transcribe_broken:
  "fst (transcribe_audio (example_env selective_whisper) small_engine broken_mp3 (u ''auto'') w) =
     Inl (Whisper_transcription_failed (u ''failed to load model''))"
  by (subst transcribe_audio_converted [OF convert_broken])
     (simp add: Let_def run_whisper_def env_defs
        batch_defs example_wav_def example_json_def example_debug_def path_defs u_def)

lemma transcribe_interview:
  "fst (transcribe_audio (example_env selective_whisper) small_engine interview_mp3 (u ''auto'') w) =
     Inr [caption_of_token hello_token]"
  by (subst transcribe_audio_converted [OF convert_example])
     (simp add: Let_def run_whisper_def env_defs
        batch_defs parse_defs path_defs str_defs example_defs caption_of_token_def
        token_offsets_def)

lemma transcribe_surrogate:
  "fst (transcribe_audio (example_env (writing_whisper surrogate_token_transcript)) small_engine
          interview_mp3 (u ''auto'') w) =
     Inr [caption_of_token surrogate_token]"
  by (subst transcribe_audio_converted [OF convert_example])
     (simp add: Let_def run_whisper_def env_defs
        parse_defs path_defs str_defs example_defs caption_of_token_def
        token_offsets_def surrogate_token_def surrogate_token_transcript_def)

lemma interview_json: "with_suffix interview_mp3 (u ''.json'') = Some (u ''/home/me/interview.json'')"
  by (simp add: interview_mp3_def path_defs u_def)

lemma basenames:
  "basename broken_mp3 = u ''broken.mp3''" "basename interview_mp3 = u ''interview.mp3''"
  by (simp_all add: interview_mp3_def broken_mp3_def path_defs u_def)

lemma dump_hello:
  "dump_outcome (example_env wh) p (JArr (map caption_json [caption_of_token hello_token])) w =
     Written"
  by (simp add: example_env_def utf8_dump_def caption_json_def caption_of_token_def
        token_offsets_def hello_token_def surrogate_def u_def)

lemma dump_surrogate:
  "json_dump (dump_outcome (example_env wh)) p
     (JArr (map caption_json [caption_of_token surrogate_token])) w =
     (Some UnicodeEncodeError, write_file p Not_json w)"
  by (simp add: json_dump_def example_env_def utf8_dump_def caption_json_def caption_of_token_def
        token_offsets_def surrogate_token_def surrogate_def u_def)

lemmas process_broken = process_file_failed [OF transcribe_broken]

lemmas process_interview = process_file_succeeded [OF transcribe_interview interview_json dump_hello]

lemma run_example_lists:
  "failed_files (run (example_env selective_whisper) dev_sys [broken_mp3, interview_mp3]
                   (u ''small'') (u ''auto'') installed_world) = [u ''broken.mp3'']"
  "successful_files (run (example_env selective_whisper) dev_sys [broken_mp3, interview_mp3]
                   (u ''small'') (u ''auto'') installed_world) = [u ''interview.mp3'']"
  by (simp_all add: run_constructed [OF init_installed] process_broken process_interview
        initial_batch_def basenames)

lemma init_exe_only:
  "TranscriptionEngine_init dev_sys (u ''small'') exe_only_world =
     Inl (Model_not_found (u ''small'') small_model)"
  by (simp add: TranscriptionEngine_init_def base_dir_def exists_def engine_defs batch_defs
        path_defs u_def)

theorem batch_isolation_witness:
  "TranscriptionEngine_init dev_sys (u ''small'') installed_world = Inr small_engine \<and>
   fst (transcribe_audio (example_env selective_whisper) small_engine broken_mp3 (u ''auto'')
          installed_world) = Inl (Whisper_transcription_failed (u ''failed to load model'')) \<and>
   failed_files (batch_after (example_env selective_whisper) small_engine (u ''auto'')
                   [broken_mp3, interview_mp3] installed_world 1) = [u ''broken.mp3''] \<and>
   failed_files (run (example_env selective_whisper) dev_sys [broken_mp3, interview_mp3]
                   (u ''small'') (u ''auto'') installed_world) = [u ''broken.mp3''] \<and>
   successful_files (run (example_env selective_whisper) dev_sys [broken_mp3, interview_mp3]
                   (u ''small'') (u ''auto'') installed_world) = [u ''interview.mp3''] \<and>
   filter is_start (emitted (run (example_env selective_whisper) dev_sys [broken_mp3, interview_mp3]
                   (u ''small'') (u ''auto'') installed_world)) =
     [Progress (Processing_file 1 2), Progress (Processing_file 2 2)] \<and>
   last (emitted (run (example_env selective_whisper) dev_sys [broken_mp3, interview_mp3]
                   (u ''small'') (u ''auto'') installed_world)) =
     Finished False (Processed_successfully 1 2) \<and>
   fst (transcribe_audio (example_env (writing_whisper surrogate_token_transcript)) small_engine
          interview_mp3 (u ''auto'') installed_world) = Inr [caption_of_token surrogate_token] \<and>
   fst (json_dump utf8_dump (u ''/home/me/interview.json'')
          (JArr (map caption_json [caption_of_token surrogate_token]))
          (snd (transcribe_audio (example_env (writing_whisper surrogate_token_transcript))
                  small_engine interview_mp3 (u ''auto'') installed_world))) =
     Some UnicodeEncodeError \<and>
   failed_files (batch_after (example_env (writing_whisper surrogate_token_transcript))
                   small_engine (u ''auto'') [interview_mp3] installed_world 1) =
     [u ''interview.mp3''] \<and>
   successful_files (batch_after (example_env (writing_whisper surrogate_token_transcript))
                   small_engine (u ''auto'') [interview_mp3] installed_world 1) = [] \<and>
   last (emitted (batch_after (example_env (writing_whisper surrogate_token_transcript))
                    small_engine (u ''auto'') [interview_mp3] installed_world 1)) =
     Progress (Error_processing_file (u ''interview.mp3'') UnicodeEncodeError) \<and>
   last (emitted (run (example_env (writing_whisper surrogate_token_transcript)) dev_sys
                    [interview_mp3] (u ''small'') (u ''auto'') installed_world)) =
     Finished False (Processed_successfully 0 1)"
proof -
  let ?ev = "example_env selective_whisper" and ?ps = "[broken_mp3, interview_mp3]"
  let ?ev2 = "example_env (writing_whisper surrogate_token_transcript)"
  let ?w2 = "snd (transcribe_audio ?ev2 small_engine interview_mp3 (u ''auto'') installed_world)"
  let ?out = "u ''/home/me/interview.json''"
  have b0: "batch_after ev small_engine (u ''auto'') ps installed_world 0 =
      initial_batch installed_world" for ev ps
    by (simp add: batch_after_def)
  have t: "transcribe_audio ?ev small_engine (?ps ! 0) (u ''auto'')
             (fs (batch_after ?ev small_engine (u ''auto'') ?ps installed_world 0)) =
           (Inl (Whisper_transcription_failed (u ''failed to load model'')),
            snd (transcribe_audio ?ev small_engine broken_mp3 (u ''auto'') installed_world))"
    using transcribe_broken [of installed_world]
    by (simp add: b0 initial_batch_def prod_eq_iff)
  note th = batch_isolation [OF init_installed, of ?ev ?ps "u ''auto''"]
  from th have s: "filter is_start (emitted (run ?ev dev_sys ?ps (u ''small'') (u ''auto'') installed_world)) =
     [Progress (Processing_file 1 2), Progress (Processing_file 2 2)]"
    by (simp add: upt_rec)
  from th have l: "last (emitted (run ?ev dev_sys ?ps (u ''small'') (u ''auto'') installed_world)) =
     Finished False (Processed_successfully 1 2)"
    by (simp add: run_example_lists)
  from th have "\<forall>k e w'. k < length ?ps \<and>
            transcribe_audio ?ev small_engine (?ps ! k) (u ''auto'')
              (fs (batch_after ?ev small_engine (u ''auto'') ?ps installed_world k)) = (Inl e, w') \<longrightarrow>
            batch_after ?ev small_engine (u ''auto'') ?ps installed_world (Suc k) =
              (batch_after ?ev small_engine (u ''auto'') ?ps installed_world k)
                \<lparr>fs := w',
                 emitted := emitted (batch_after ?ev small_engine (u ''auto'') ?ps installed_world k) @
                   start_events (Suc k) (length ?ps) (?ps ! k) @
                   [Progress (Error_processing_file (basename (?ps ! k)) e)],
                 failed_files := failed_files (batch_after ?ev small_engine (u ''auto'') ?ps installed_world k) @
                   [basename (?ps ! k)]\<rparr>"
    by (elim conjE)
  with t have "batch_after ?ev small_engine (u ''auto'') ?ps installed_world (Suc 0) =
      (batch_after ?ev small_engine (u ''auto'') ?ps installed_world 0)
        \<lparr>fs := snd (transcribe_audio ?ev small_engine broken_mp3 (u ''auto'') installed_world),
         emitted := emitted (batch_after ?ev small_engine (u ''auto'') ?ps installed_world 0) @
           start_events (Suc 0) (length ?ps) (?ps ! 0) @
           [Progress (Error_processing_file (basename (?ps ! 0))
              (Whisper_transcription_failed (u ''failed to load model'')))],
         failed_files := failed_files (batch_after ?ev small_engine (u ''auto'') ?ps installed_world 0) @
           [basename (?ps ! 0)]\<rparr>"
    by (elim allE [of _ 0] allE [of _ "Whisper_transcription_failed (u ''failed to load model'')"]
          allE [of _ "snd (transcribe_audio ?ev small_engine broken_mp3 (u ''auto'') installed_world)"])
       simp
  then have f: "failed_files (batch_after ?ev small_engine (u ''auto'') ?ps installed_world 1) =
      [u ''broken.mp3'']"
    by (simp add: b0 initial_batch_def basenames)
  have t2: "transcribe_audio ?ev2 small_engine ([interview_mp3] ! 0) (u ''auto'')
             (fs (batch_after ?ev2 small_engine (u ''auto'') [interview_mp3] installed_world 0)) =
           (Inr [caption_of_token surrogate_token], ?w2)"
    using transcribe_surrogate [of installed_world]
    by (simp add: b0 initial_batch_def prod_eq_iff)
  have d2: "json_dump (dump_outcome ?ev2) ?out
              (JArr (map caption_json [caption_of_token surrogate_token])) ?w2 =
            (Some UnicodeEncodeError, write_file ?out Not_json ?w2)"
    by (rule dump_surrogate)
  have u2: "dump_outcome ?ev2 = utf8_dump"
    by (simp add: example_env_def)
  note th2 = batch_isolation [OF init_installed, of ?ev2 "[interview_mp3]" "u ''auto''"]
  from th2 have "\<forall>k captions w' output_path e w''. k < length [interview_mp3] \<and>
            transcribe_audio ?ev2 small_engine ([interview_mp3] ! k) (u ''auto'')
              (fs (batch_after ?ev2 small_engine (u ''auto'') [interview_mp3] installed_world k)) =
              (Inr captions, w') \<and>
            with_suffix ([interview_mp3] ! k) (u ''.json'') = Some output_path \<and>
            json_dump (dump_outcome ?ev2) output_path (JArr (map caption_json captions)) w' =
              (Some e, w'') \<longrightarrow>
            batch_after ?ev2 small_engine (u ''auto'') [interview_mp3] installed_world (Suc k) =
              (batch_after ?ev2 small_engine (u ''auto'') [interview_mp3] installed_world k)
                \<lparr>fs := w'',
                 emitted := emitted (batch_after ?ev2 small_engine (u ''auto'') [interview_mp3] installed_world k) @
                   start_events (Suc k) (length [interview_mp3]) ([interview_mp3] ! k) @
                   [Progress (Saving_captions_to (basename output_path)),
                    Progress (Error_processing_file (basename ([interview_mp3] ! k)) e)],
                 failed_files := failed_files (batch_after ?ev2 small_engine (u ''auto'') [interview_mp3] installed_world k) @
                   [basename ([interview_mp3] ! k)]\<rparr>"
    by (elim conjE)
  with t2 d2 interview_json
  have b1: "batch_after ?ev2 small_engine (u ''auto'') [interview_mp3] installed_world (Suc 0) =
      (batch_after ?ev2 small_engine (u ''auto'') [interview_mp3] installed_world 0)
        \<lparr>fs := write_file ?out Not_json ?w2,
         emitted := emitted (batch_after ?ev2 small_engine (u ''auto'') [interview_mp3] installed_world 0) @
           start_events (Suc 0) (length [interview_mp3]) ([interview_mp3] ! 0) @
           [Progress (Saving_captions_to (basename ?out)),
            Progress (Error_processing_file (basename ([interview_mp3] ! 0)) UnicodeEncodeError)],
         failed_files := failed_files (batch_after ?ev2 small_engine (u ''auto'') [interview_mp3] installed_world 0) @
           [basename ([interview_mp3] ! 0)]\<rparr>"
    by (elim allE [of _ 0] allE [of _ "[caption_of_token surrogate_token]"] allE [of _ ?w2]
          allE [of _ ?out] allE [of _ UnicodeEncodeError]
          allE [of _ "write_file ?out Not_json ?w2"])
       simp
  from b1 have f2: "failed_files (batch_after ?ev2 small_engine (u ''auto'') [interview_mp3] installed_world (Suc 0)) =
      [u ''interview.mp3'']"
    and s2: "successful_files (batch_after ?ev2 small_engine (u ''auto'') [interview_mp3] installed_world (Suc 0)) = []"
    and e2: "last (emitted (batch_after ?ev2 small_engine (u ''auto'') [interview_mp3] installed_world (Suc 0))) =
      Progress (Error_processing_file (u ''interview.mp3'') UnicodeEncodeError)"
    by (simp_all add: b0 initial_batch_def basenames)
  from th2 have "run ?ev2 dev_sys [interview_mp3] (u ''small'') (u ''auto'') installed_world =
      final_summary 1 (batch_after ?ev2 small_engine (u ''auto'') [interview_mp3] installed_world 1)"
    by simp
  then have l2: "last (emitted (run ?ev2 dev_sys [interview_mp3] (u ''small'') (u ''auto'') installed_world)) =
      Finished False (Processed_successfully 0 1)"
    by (simp add: final_summary_last f2 s2)
  from d2 u2 have d3: "fst (json_dump utf8_dump ?out
          (JArr (map caption_json [caption_of_token surrogate_token])) ?w2) = Some UnicodeEncodeError"
    by simp
  from init_installed transcribe_broken [of installed_world] f run_example_lists s l
    transcribe_surrogate [of installed_world] d3 f2 s2 e2 l2
  show ?thesis by simp
qed

theorem batch_abort_counterexample:
  "filter is_start (emitted (run (example_env selective_whisper) dev_sys [broken_mp3, interview_mp3]
                               (u ''small'') (u ''auto'') exe_only_world)) = [] \<and>
   successful_files (run (example_env selective_whisper) dev_sys [broken_mp3, interview_mp3]
                       (u ''small'') (u ''auto'') exe_only_world) = [] \<and>
   failed_files (run (example_env selective_whisper) dev_sys [broken_mp3, interview_mp3]
                   (u ''small'') (u ''auto'') exe_only_world) = [] \<and>
   map basename [broken_mp3, interview_mp3] = [u ''broken.mp3'', u ''interview.mp3''] \<and>
   last (emitted (run (example_env selective_whisper) dev_sys [broken_mp3, interview_mp3]
                    (u ''small'') (u ''auto'') exe_only_world)) =
     Finished False (Batch_error (Model_not_found (u ''small'') small_model)) \<and>
   filter is_start (emitted (run (example_env selective_whisper) dev_sys [broken_mp3, interview_mp3]
                               (u ''small'') (u ''auto'') model_only_world)) = [] \<and>
   failed_files (run (example_env selective_whisper) dev_sys [broken_mp3, interview_mp3]
                   (u ''small'') (u ''auto'') model_only_world) = [] \<and>
   last (emitted (run (example_env selective_whisper) dev_sys [broken_mp3, interview_mp3]
                    (u ''small'') (u ''auto'') model_only_world)) =
     Finished False (Batch_error Whisper_executable_not_found)"
  by (simp add: run_not_constructed [OF init_exe_only] run_not_constructed [OF init_model_only]
        basenames)









end
